theory Spec2Isabelle
  imports Complex_Main "HOL-Library.Word" "HOL-Library.Multiset" "HOL-Library.Monad_Syntax"
begin

unbundle bit_operations_syntax

section \<open>Conventions of the embedding\<close>

text \<open>
  The renderer's \<^verbatim>\<open>Float\<close> is a binary floating-point type, single precision unless the
  build asks for double. A \<^verbatim>\<open>Float\<close> is modelled by the real number it denotes and an
  operation on \<^verbatim>\<open>Float\<close> by the exact operation followed by a rounding \<open>fl\<close>, which is a
  parameter of the functions below: \<open>binary32\<close> is the rounding of the single-precision
  build, the identity is arithmetic without rounding error. The rounding is written out
  wherever a result is floored, is compared to end a loop or is added into a bin: in the
  path-length target, in the running statistics and the exit test of the adaptive loop, in
  the bin index and in the addition into a bin. The weights and lengths of one connection,
  the pretraining average and the blending of the snapshot are kept exact. Overflow to infinity is not modelled;
  where a NaN decides a test of the source (the variance after a single sample, the root
  of a negative number) the model writes that case out. Counts of type \<^verbatim>\<open>size_t\<close> are
  natural numbers, and the one product of counts the source forms is reduced modulo
  \<open>2^64\<close>. \<^verbatim>\<open>Log(EError, ...)\<close> and \<^verbatim>\<open>SLog(EError, ...)\<close> throw, so every function that can
  reach one returns a sum whose left summand is the error. Results of calls into the
  scene, the sampler, vertices and edges (code outside the translated files) are
  parameters of the functions that use them.
\<close>

type_synonym Float = real

datatype error = EError string

type_synonym Spectrum = "Float \<times> Float \<times> Float"

type_synonym Point2 = "Float \<times> Float"

datatype EDecompositionType = ESteadyState | ETransient | EBounce | ETransientEllipse

text \<open>
  \<^verbatim>\<open>BDPTConfiguration\<close> (\<^verbatim>\<open>m_config\<close>) and \<^verbatim>\<open>BDPTWorkResult\<close> (\<^verbatim>\<open>wr\<close>) carry the decomposition
  settings under the same member names; a common parent record gives both the same
  selectors.
\<close>

record DecompositionSettings =
  m_decompositionType :: EDecompositionType
  m_combineBDPTAndElliptic :: bool
  m_decompositionMinBound :: Float
  m_decompositionMaxBound :: Float
  m_decompositionBinWidth :: Float
  m_frames :: nat
  m_forceBounces :: bool
  m_sBounces :: int
  m_tBounces :: int

text \<open>The further fields of \<^verbatim>\<open>BDPTConfiguration\<close> that \<^verbatim>\<open>bdpt_proc.cpp\<close> reads.\<close>

record BDPTConfiguration = DecompositionSettings +
  maxDepth :: int
  rrDepth :: int
  sampleDirect :: bool
  lightImage :: bool
  m_isldSampling :: bool
  m_isAdaptive :: bool
  m_adapMaxError :: Float
  m_adapQuantile :: Float
  m_adapMaxSampleFactor :: int

text \<open>
  Of the work result, \<^verbatim>\<open>evaluate\<close> reads the decomposition settings, the channel count,
  whether its path-length sampler has a modulation
  (\<^verbatim>\<open>getModulationType() != PathLengthSampler::ENone\<close>) and the correlation function.
\<close>

record BDPTWorkResult = DecompositionSettings +
  getChannelCount :: nat
  modulated :: bool
  correlationFunction :: "Float \<Rightarrow> Float"

section \<open>Rounding to single precision\<close>

text \<open>
  IEEE 754 binary32 with the default rounding, to nearest with ties to even: 24
  significant bits, the least exponent of a normal number is \<open>-126\<close>, and below it the
  spacing stays that of the least binade (subnormal numbers). \<open>roundTiesToEven\<close> is the
  nearest integer, the even one of two equally near.
\<close>

definition roundTiesToEven :: "real \<Rightarrow> int" where
  "roundTiesToEven y =
     (let f = \<lfloor>y\<rfloor>; d = y - of_int f
      in if d < 1 / 2 then f else if d > 1 / 2 then f + 1 else if even f then f else f + 1)"

definition pow2 :: "int \<Rightarrow> real" where
  "pow2 e = (if 0 \<le> e then 2 ^ nat e else 1 / 2 ^ nat (- e))"

definition binary32 :: "real \<Rightarrow> real" where
  "binary32 x =
     (if x = 0 then 0
      else
        let e = max \<lfloor>log 2 \<bar>x\<bar>\<rfloor> (- 126);
            ulp = pow2 (e - 23)
        in of_int (roundTiesToEven (x / ulp)) * ulp)"

section \<open>BDPTRenderer::process: the emitter check (lines 87--94)\<close>

text \<open>
  An emitter is represented by the bit set \<^verbatim>\<open>getType()\<close> returns. The two flag constants
  \<^verbatim>\<open>Emitter::EOrthographicEmitter\<close> and \<^verbatim>\<open>Emitter::EPerspectiveEmitter\<close> are declared in a
  header outside the translated files and are parameters.
\<close>

record Emitter =
  getType :: "32 word"

text \<open>
  The body of the loop for counter \<open>i\<close>. As in the source, the emitter inspected is
  \<^verbatim>\<open>emitters[0]\<close>, whatever \<open>i\<close> is; \<^verbatim>\<open>&\<close> binds tighter than \<^verbatim>\<open>&&\<close>.
\<close>

definition emitterCheckBody ::
  "32 word \<Rightarrow> 32 word \<Rightarrow> bool \<Rightarrow> Emitter list \<Rightarrow> nat \<Rightarrow> error + unit" where
  "emitterCheckBody EOrthographicEmitter EPerspectiveEmitter lightImg emitters i =
     (let emitter = emitters ! 0 in
      if (getType emitter AND (EOrthographicEmitter OR EPerspectiveEmitter)) \<noteq> 0 \<and> lightImg
      then Inl (EError ''Set lightImage to be false in the integrator for projectors to work'')
      else Inr ())"

text \<open>A counted loop whose body may throw: the first error ends it.\<close>

fun forEach :: "(nat \<Rightarrow> error + unit) \<Rightarrow> nat list \<Rightarrow> error + unit" where
  "forEach body [] = Inr ()"
| "forEach body (i # rest) =
     (case body i of Inl e \<Rightarrow> Inl e | Inr u \<Rightarrow> forEach body rest)"

definition emitterCheck ::
  "32 word \<Rightarrow> 32 word \<Rightarrow> bool \<Rightarrow> Emitter list \<Rightarrow> error + unit" where
  "emitterCheck EOrthographicEmitter EPerspectiveEmitter lightImg emitters =
     forEach (emitterCheckBody EOrthographicEmitter EPerspectiveEmitter lightImg emitters)
       [0 ..< length emitters]"

section \<open>BDPTRenderer::process: the path-length target (lines 133--137)\<close>

text \<open>
  \<open>uniformTarget\<close> is what \<^verbatim>\<open>result->samplePathLengthTarget(m_sampler)\<close> returns and
  \<open>nextFloat\<close> what \<^verbatim>\<open>m_sampler->nextFloat()\<close> returns; \<open>j\<close> is the loop counter over the
  samples of one pixel. \<^verbatim>\<open>j % m_frames\<close> is a count and is converted to \<^verbatim>\<open>Float\<close> for the
  product; the sum associates to the left.
\<close>

definition pathLengthTarget ::
  "(Float \<Rightarrow> Float) \<Rightarrow> BDPTConfiguration \<Rightarrow> nat \<Rightarrow> Float \<Rightarrow> Float \<Rightarrow> Float" where
  "pathLengthTarget fl config j uniformTarget nextFloat =
     (if \<not> m_isldSampling config then uniformTarget
      else fl (fl (m_decompositionMinBound config
                   + fl (m_decompositionBinWidth config * fl (real (j mod m_frames config))))
               + fl (m_decompositionBinWidth config * nextFloat)))"

text \<open>Bin \<open>k\<close> is the half-open interval of path lengths \<open>[Min + k BinWidth, Min + (k+1) BinWidth)\<close>.\<close>

definition inBin :: "BDPTConfiguration \<Rightarrow> nat \<Rightarrow> Float \<Rightarrow> bool" where
  "inBin config k l =
     (m_decompositionMinBound config + m_decompositionBinWidth config * real k \<le> l
      \<and> l < m_decompositionMinBound config + m_decompositionBinWidth config * (real k + 1))"

section \<open>BDPTRenderer::process: the pretraining average (lines 155--200)\<close>

text \<open>
  \<^verbatim>\<open>Spectrum::operator/\<close> and \<^verbatim>\<open>Spectrum::getLuminance\<close> live in a header outside the
  translated files. Division is componentwise; the luminance is a weighted sum of the
  three channels whose weights are a parameter.
\<close>

definition spectrumDiv :: "Spectrum \<Rightarrow> Float \<Rightarrow> Spectrum" where
  "spectrumDiv s f = (case s of (r, g, b) \<Rightarrow> (r / f, g / f, b / f))"

definition getLuminance :: "Spectrum \<Rightarrow> Spectrum \<Rightarrow> Float" where
  "getLuminance weights s =
     (case weights of (wr, wg, wb) \<Rightarrow> case s of (r, g, b) \<Rightarrow> r * wr + g * wg + b * wb)"

definition fakeConfig :: "BDPTConfiguration \<Rightarrow> BDPTConfiguration" where
  "fakeConfig config =
     config\<lparr> m_decompositionBinWidth :=
               m_decompositionMaxBound config - m_decompositionMinBound config,
             m_frames := 1 \<rparr>"

text \<open>
  \<open>fakeAverage c\<close> is \<^verbatim>\<open>fakeResult->average()\<close> for the work result built from
  configuration \<open>c\<close> and filled by the pretraining samples.
\<close>

definition averageLuminance ::
  "Spectrum \<Rightarrow> (BDPTConfiguration \<Rightarrow> Spectrum) \<Rightarrow> BDPTConfiguration \<Rightarrow> Float" where
  "averageLuminance weights fakeAverage config =
     (let averegeBitmap = spectrumDiv (fakeAverage (fakeConfig config)) (real (m_frames config))
      in getLuminance weights averegeBitmap)"

section \<open>BDPTRenderer::process: the adaptive sampling loop (lines 232--288)\<close>

text \<open>The running statistics of one pixel and one time bin.\<close>

record Welford =
  mean :: Float
  meanSqr :: Float
  sampleCount :: nat

definition welfordInit :: Welford where
  "welfordInit = \<lparr> mean = 0, meanSqr = 0, sampleCount = 0 \<rparr>"

text \<open>
  Lines 265--269: the update for the luminance of one new sample. The count is converted
  to \<^verbatim>\<open>Float\<close> for the division.
\<close>

definition addSample :: "(Float \<Rightarrow> Float) \<Rightarrow> Float \<Rightarrow> Welford \<Rightarrow> Welford" where
  "addSample fl sampleLuminance w =
     (let sampleCount' = sampleCount w + 1;
          delta = fl (sampleLuminance - mean w);
          mean' = fl (mean w + fl (delta / fl (real sampleCount')));
          meanSqr' = fl (meanSqr w + fl (delta * fl (sampleLuminance - mean')))
      in \<lparr> mean = mean', meanSqr = meanSqr', sampleCount = sampleCount' \<rparr>)"

text \<open>
  Lines 275--285: the confidence-interval test. After the first sample \<^verbatim>\<open>sampleCount-1\<close> is
  zero, so the source divides by zero: the quotient is a NaN or an infinity and the
  comparison \<^verbatim>\<open>ciWidth <= ...\<close> is false. \<^verbatim>\<open>std::sqrt\<close> of a negative number is a NaN and the
  comparison is false again. The model writes both cases out. The literal \<^verbatim>\<open>0.01f\<close> is the
  single-precision number nearest to one hundredth.
\<close>

definition converged :: "(Float \<Rightarrow> Float) \<Rightarrow> BDPTConfiguration \<Rightarrow> Float \<Rightarrow> Welford \<Rightarrow> bool" where
  "converged fl config averageLum w =
     (if sampleCount w - 1 = 0 then False
      else
        let variance = fl (meanSqr w / fl (real (sampleCount w - 1)));
            meanVariance = fl (variance / fl (real (sampleCount w)))
        in if meanVariance < 0 then False
           else
             let stdError = fl (sqrt meanVariance);
                 ciWidth = fl (stdError * m_adapQuantile config);
                 base = max (mean w) (fl (averageLum * binary32 (1 / 100)))
             in ciWidth \<le> fl (m_adapMaxError config * base))"

text \<open>
  Lines 271--287: whether the loop breaks after the update. The factor is an \<^verbatim>\<open>int\<close> and
  \<^verbatim>\<open>samplesPerBin\<close> a \<^verbatim>\<open>size_t\<close>: the product is formed in \<^verbatim>\<open>size_t\<close>, modulo \<open>2^64\<close>.
\<close>

definition breakTest ::
  "(Float \<Rightarrow> Float) \<Rightarrow> BDPTConfiguration \<Rightarrow> nat \<Rightarrow> Float \<Rightarrow> Welford \<Rightarrow> bool" where
  "breakTest fl config samplesPerBin averageLum w =
     (if m_adapMaxSampleFactor config \<ge> 0
         \<and> int (sampleCount w)
             \<ge> (m_adapMaxSampleFactor config * int samplesPerBin) mod 2 ^ 64
      then True
      else if sampleCount w \<ge> samplesPerBin then converged fl config averageLum w
      else False)"

text \<open>
  The \<^verbatim>\<open>while (true)\<close> loop. \<open>stop i\<close> is the value of the shared \<^verbatim>\<open>stop\<close> flag when the loop
  tests it with \<open>i\<close> samples taken, and \<open>luminance i\<close> is the luminance of the value
  \<^verbatim>\<open>evaluate\<close> returns for sample number \<open>i\<close> (counted from zero). The loop need not end:
  it is a partial function, and \<open>None\<close> is the run that never breaks.
\<close>

partial_function (option) adaptiveLoop ::
  "(Float \<Rightarrow> Float) \<Rightarrow> BDPTConfiguration \<Rightarrow> nat \<Rightarrow> Float \<Rightarrow> (nat \<Rightarrow> bool) \<Rightarrow> (nat \<Rightarrow> Float)
    \<Rightarrow> Welford \<Rightarrow> Welford option" where
  "adaptiveLoop fl config samplesPerBin averageLum stop luminance w =
     (if stop (sampleCount w) then Some w
      else
        let w' = addSample fl (luminance (sampleCount w)) w
        in if breakTest fl config samplesPerBin averageLum w' then Some w'
           else adaptiveLoop fl config samplesPerBin averageLum stop luminance w')"

text \<open>The statistics after the first \<open>n\<close> samples.\<close>

primrec welfordRun :: "(Float \<Rightarrow> Float) \<Rightarrow> (nat \<Rightarrow> Float) \<Rightarrow> nat \<Rightarrow> Welford" where
  "welfordRun fl luminance 0 = welfordInit"
| "welfordRun fl luminance (Suc n) = addSample fl (luminance n) (welfordRun fl luminance n)"

text \<open>
  What Welford's algorithm computes when nothing is rounded: the mean of the first \<open>n\<close>
  luminances and the sum of their squared deviations from that mean.
\<close>

definition sampleMean :: "(nat \<Rightarrow> Float) \<Rightarrow> nat \<Rightarrow> Float" where
  "sampleMean luminance n = (\<Sum>i<n. luminance i) / real n"

definition sumSqDev :: "(nat \<Rightarrow> Float) \<Rightarrow> nat \<Rightarrow> Float" where
  "sumSqDev luminance n = (\<Sum>i<n. (luminance i - sampleMean luminance n)\<^sup>2)"

text \<open>
  The exit condition as the code tests it, on the running statistics \<open>w\<close> with
  \<open>n = sampleCount w\<close>: the cap applies only for a non-negative factor and its product is
  taken in \<^verbatim>\<open>size_t\<close>; the confidence test needs two samples, and its quantities are
  computed in \<^verbatim>\<open>Float\<close> in the order of the source.
\<close>

definition exitCondition ::
  "(Float \<Rightarrow> Float) \<Rightarrow> BDPTConfiguration \<Rightarrow> nat \<Rightarrow> Float \<Rightarrow> Welford \<Rightarrow> bool" where
  "exitCondition fl config samplesPerBin averageLum w =
     ((0 \<le> m_adapMaxSampleFactor config
        \<and> (m_adapMaxSampleFactor config * int samplesPerBin) mod 2 ^ 64 \<le> int (sampleCount w))
      \<or> (samplesPerBin \<le> sampleCount w \<and> 2 \<le> sampleCount w
          \<and> 0 \<le> fl (fl (meanSqr w / fl (real (sampleCount w - 1))) / fl (real (sampleCount w)))
          \<and> fl (fl (sqrt (fl (fl (meanSqr w / fl (real (sampleCount w - 1)))
                                 / fl (real (sampleCount w)))))
                  * m_adapQuantile config)
              \<le> fl (m_adapMaxError config
                       * max (mean w) (fl (averageLum * binary32 (1 / 100))))))"

text \<open>
  The exit condition in the words of the specification, on the mean and the sum of
  squared deviations of the first \<open>n\<close> luminances: the hard cap
  \<open>sampleCount \<ge> adapMaxSampleFactor * samplesPerBin\<close>, or \<open>sampleCount \<ge> samplesPerBin\<close> and
  the half width of the confidence interval within the relative error.
\<close>

definition specExitCondition ::
  "BDPTConfiguration \<Rightarrow> nat \<Rightarrow> Float \<Rightarrow> (nat \<Rightarrow> Float) \<Rightarrow> nat \<Rightarrow> bool" where
  "specExitCondition config samplesPerBin averageLum luminance n =
     (m_adapMaxSampleFactor config * int samplesPerBin \<le> int n
      \<or> (samplesPerBin \<le> n
          \<and> m_adapQuantile config * sqrt (sumSqDev luminance n / (real n * (real n - 1)))
              \<le> m_adapMaxError config * max (sampleMean luminance n) (averageLum / 100)))"

section \<open>BDPTRenderer::process: snapshot and restore (lines 219--230 and 289--297)\<close>

text \<open>
  The float data of the image block's bitmap is an array addressed by offset. The address
  the two loops compute for footprint position \<open>(x, y)\<close>, Hilbert-curve point \<open>(hx, hy)\<close>
  and time bin \<open>j\<close>:
\<close>

definition footprintAddr :: "nat \<Rightarrow> nat \<Rightarrow> nat \<Rightarrow> nat \<Rightarrow> nat \<Rightarrow> nat \<Rightarrow> nat \<Rightarrow> nat" where
  "footprintAddr sizeX channels hx hy j y x = ((hy + y) * sizeX + (hx + x)) * channels + j"

text \<open>The positions \<open>(y, x)\<close> in the order of the nested loops; \<open>temp\<close> is the index in this list.\<close>

definition footprint :: "nat \<Rightarrow> (nat \<times> nat) list" where
  "footprint borderSize =
     concat (map (\<lambda>y. map (\<lambda>x. (y, x)) [0 ..< 2 * borderSize + 1]) [0 ..< 2 * borderSize + 1])"

definition takeSnapshot ::
  "nat \<Rightarrow> nat \<Rightarrow> nat \<Rightarrow> nat \<Rightarrow> nat \<Rightarrow> nat \<Rightarrow> (nat \<Rightarrow> Float) \<Rightarrow> Float list" where
  "takeSnapshot sizeX channels hx hy j borderSize target =
     map (\<lambda>(y, x). target (footprintAddr sizeX channels hx hy j y x)) (footprint borderSize)"

definition restoreStep ::
  "nat \<Rightarrow> nat \<Rightarrow> nat \<Rightarrow> nat \<Rightarrow> nat \<Rightarrow> Float \<Rightarrow> Float list \<Rightarrow> nat \<times> nat \<times> nat
    \<Rightarrow> (nat \<Rightarrow> Float) \<Rightarrow> (nat \<Rightarrow> Float)" where
  "restoreStep sizeX channels hx hy j factor snapshot p target =
     (case p of (temp, y, x) \<Rightarrow>
        let src = footprintAddr sizeX channels hx hy j y x
        in target(src := snapshot ! temp * (1 - factor) + target src * factor))"

definition restoreSnapshot ::
  "nat \<Rightarrow> nat \<Rightarrow> nat \<Rightarrow> nat \<Rightarrow> nat \<Rightarrow> nat \<Rightarrow> Float \<Rightarrow> Float list
    \<Rightarrow> (nat \<Rightarrow> Float) \<Rightarrow> (nat \<Rightarrow> Float)" where
  "restoreSnapshot sizeX channels hx hy j borderSize factor snapshot target =
     fold (restoreStep sizeX channels hx hy j factor snapshot)
       (enumerate 0 (footprint borderSize)) target"

text \<open>
  One iteration of the loop over the time bins \<open>j\<close> for one pixel: snapshot, sampling,
  restore. \<open>sampling\<close> is the effect on the bitmap of the samples the loop puts, and
  \<open>numSamples\<close> the number of samples it took, which is positive unless the \<^verbatim>\<open>stop\<close> flag
  was set before the first sample (the source then divides by zero).
\<close>

definition adaptiveBin ::
  "nat \<Rightarrow> nat \<Rightarrow> nat \<Rightarrow> nat \<Rightarrow> nat \<Rightarrow> nat \<Rightarrow> nat \<Rightarrow> nat
    \<Rightarrow> ((nat \<Rightarrow> Float) \<Rightarrow> (nat \<Rightarrow> Float)) \<Rightarrow> (nat \<Rightarrow> Float) \<Rightarrow> (nat \<Rightarrow> Float)" where
  "adaptiveBin sizeX channels hx hy j borderSize samplesPerBin numSamples sampling target =
     (let snapshot = takeSnapshot sizeX channels hx hy j borderSize target;
          target' = sampling target;
          factor = real samplesPerBin / real numSamples
      in restoreSnapshot sizeX channels hx hy j borderSize factor snapshot target')"

section \<open>The memory pool and the paths\<close>

text \<open>
  Modelled from the spec: \<^verbatim>\<open>MemoryPool\<close> and the allocation behaviour of \<^verbatim>\<open>Path\<close> are not in
  the translated files. The pool is an arena owning the vertices and edges in flight;
  release is explicit; a pool is unused when nothing is in flight. Objects are
  identified by numbers, and the pool hands out a number it has not handed out before.
\<close>

record MemoryPool =
  vertexInFlight :: "nat list"
  vertexNext :: nat
  edgeInFlight :: "nat list"
  edgeNext :: nat

definition allocVertex :: "MemoryPool \<Rightarrow> nat \<times> MemoryPool" where
  "allocVertex pool =
     (vertexNext pool,
      pool\<lparr> vertexInFlight := vertexNext pool # vertexInFlight pool,
            vertexNext := vertexNext pool + 1 \<rparr>)"

definition allocEdge :: "MemoryPool \<Rightarrow> nat \<times> MemoryPool" where
  "allocEdge pool =
     (edgeNext pool,
      pool\<lparr> edgeInFlight := edgeNext pool # edgeInFlight pool,
            edgeNext := edgeNext pool + 1 \<rparr>)"

definition releaseVertex :: "nat \<Rightarrow> MemoryPool \<Rightarrow> MemoryPool" where
  "releaseVertex v pool = pool\<lparr> vertexInFlight := remove1 v (vertexInFlight pool) \<rparr>"

definition releaseEdge :: "nat \<Rightarrow> MemoryPool \<Rightarrow> MemoryPool" where
  "releaseEdge e pool = pool\<lparr> edgeInFlight := remove1 e (edgeInFlight pool) \<rparr>"

definition unused :: "MemoryPool \<Rightarrow> bool" where
  "unused pool = (vertexInFlight pool = [] \<and> edgeInFlight pool = [])"

text \<open>
  Modelled from the spec: a path is an ordered sequence of vertices interleaved with
  edges, all taken from the pool. \<^verbatim>\<open>initialize\<close> allocates the super-node, every step of the
  random walk allocates one edge and one vertex, and \<^verbatim>\<open>release\<close> gives every vertex and edge
  of the path back.
\<close>

record Path =
  vertices :: "nat list"
  edges :: "nat list"

definition Path_initialize :: "MemoryPool \<Rightarrow> Path \<times> MemoryPool" where
  "Path_initialize pool =
     (case allocVertex pool of (v, pool') \<Rightarrow> (\<lparr> vertices = [v], edges = [] \<rparr>, pool'))"

fun Path_grow :: "nat \<Rightarrow> Path \<Rightarrow> MemoryPool \<Rightarrow> Path \<times> MemoryPool" where
  "Path_grow 0 path pool = (path, pool)"
| "Path_grow (Suc n) path pool =
     (case allocEdge pool of (e, pool1) \<Rightarrow>
      case allocVertex pool1 of (v, pool2) \<Rightarrow>
        Path_grow n \<lparr> vertices = vertices path @ [v], edges = edges path @ [e] \<rparr> pool2)"

definition Path_release :: "Path \<Rightarrow> MemoryPool \<Rightarrow> MemoryPool" where
  "Path_release path pool = fold releaseEdge (edges path) (fold releaseVertex (vertices path) pool)"

section \<open>BDPTRenderer::evaluate (lines 311--807)\<close>

subsection \<open>Spectra and accumulators\<close>

definition specMul :: "Spectrum \<Rightarrow> Spectrum \<Rightarrow> Spectrum" where
  "specMul a b = (case a of (r, g, bl) \<Rightarrow> case b of (r', g', bl') \<Rightarrow> (r * r', g * g', bl * bl'))"

definition specScale :: "Spectrum \<Rightarrow> Float \<Rightarrow> Spectrum" where
  "specScale a f = (case a of (r, g, bl) \<Rightarrow> (r * f, g * f, bl * f))"

definition specAdd :: "Spectrum \<Rightarrow> Spectrum \<Rightarrow> Spectrum" where
  "specAdd a b = (case a of (r, g, bl) \<Rightarrow> case b of (r', g', bl') \<Rightarrow> (r + r', g + g', bl + bl'))"

definition isZero :: "Spectrum \<Rightarrow> bool" where
  "isZero a = (a = (0, 0, 0))"

text \<open>What \<^verbatim>\<open>putLightSample\<close> and \<^verbatim>\<open>putSample\<close> receive: a spectrum or an array of channels.\<close>

datatype Sample = SpectrumSample Spectrum | ChannelSample "nat \<Rightarrow> Float"

text \<open>
  The state the loop over \<open>(s, t)\<close> updates: \<^verbatim>\<open>sampleValue\<close>, \<^verbatim>\<open>meanSpectrum\<close>, the two channel
  arrays (addressed by index) and the light samples put so far, oldest first.
\<close>

record Accum =
  sampleValue :: Spectrum
  meanSpectrum :: Spectrum
  sampleDecompositionValue :: "nat \<Rightarrow> Float"
  l_sampleDecompositionValue :: "nat \<Rightarrow> Float"
  lightSamples :: "(Point2 \<times> Sample) list"

subsection \<open>Path lengths of the two subpaths (lines 347--370)\<close>

text \<open>
  \<open>edgeLength i\<close> is \<^verbatim>\<open>edge(i)->length\<close>. Entry 0 and entry 1 are zero; from entry 2 on every
  edge adds its length (\<^verbatim>\<open>ETransient\<close>, \<^verbatim>\<open>ETransientEllipse\<close>) or one unit (\<^verbatim>\<open>EBounce\<close>).
\<close>

fun pathlengthEntry :: "EDecompositionType \<Rightarrow> (nat \<Rightarrow> Float) \<Rightarrow> nat \<Rightarrow> Float" where
  "pathlengthEntry dt edgeLength 0 = 0"
| "pathlengthEntry dt edgeLength (Suc 0) = 0"
| "pathlengthEntry dt edgeLength (Suc (Suc i)) =
     pathlengthEntry dt edgeLength (Suc i) + (if dt = EBounce then 1 else edgeLength (Suc i))"

definition pathlengths :: "EDecompositionType \<Rightarrow> (nat \<Rightarrow> Float) \<Rightarrow> nat \<Rightarrow> Float list" where
  "pathlengths dt edgeLength vertexCount =
     (if dt = ESteadyState then [] else map (pathlengthEntry dt edgeLength) [0 ..< vertexCount])"

subsection \<open>One connection: the endpoints (lines 427--695)\<close>

text \<open>
  The results of the calls \<^verbatim>\<open>evaluate\<close> makes for one pair \<open>(s, t)\<close>, named after the call.
  \<open>ellipticSample\<close> is what the vertex insertion of the long form of
  \<^verbatim>\<open>EllipsoidalSampleBetween\<close> produces, the value of the path and its weight, and \<open>None\<close>
  when the insertion fails.
\<close>

record Connection =
  vsIsEmitterSupernode :: bool
  vtIsSensorSupernode :: bool
  vsIsDegenerate :: bool
  vtIsDegenerate :: bool
  importanceWeight :: Spectrum
  radianceWeight :: Spectrum
  sampleDirectResult :: Spectrum
  vsEval :: Spectrum
  vtEval :: Spectrum
  vsVtDistance :: Float
  samplerNextFloat :: Float
  ellipsoidalSampleOk :: bool
  connectionEdge1Length :: Float
  connectionEdge2Length :: Float
  ellipticSample :: "(Spectrum \<times> Float) option"
  pathConnectOk :: bool
  evalCached :: Spectrum
  miWeightResult :: Float
  vtIsSensorSample :: bool
  getSamplePosition :: "Point2 option"

text \<open>What the first half of the loop body hands to the second.\<close>

record Prepared =
  p_type :: EDecompositionType
  p_pathLength :: Float
  p_value :: Spectrum
  p_sampleDirect :: bool
  p_corrWeight :: Float

datatype Endpoints =
    Skip
  | EllipticInsert Float Float
  | Proceed Prepared

text \<open>
  Lines 573--585 and 626--638: the choice between the direct connection and the elliptic
  one when both are possible; the result is the current decomposition type and
  \<^verbatim>\<open>corrWeight\<close>.
\<close>

definition chooseDecomposition ::
  "BDPTWorkResult \<Rightarrow> Connection \<Rightarrow> EDecompositionType \<Rightarrow> Float \<Rightarrow> EDecompositionType \<times> Float" where
  "chooseDecomposition wr c cur tempPathLength =
     (if m_combineBDPTAndElliptic wr \<and> cur = ETransientEllipse
         \<and> tempPathLength \<ge> m_decompositionMinBound wr
         \<and> tempPathLength \<le> m_decompositionMaxBound wr
      then
        (if modulated wr then
           let corrWeight = correlationFunction wr tempPathLength
           in if samplerNextFloat c < corrWeight then (ETransient, 1 / corrWeight)
              else (cur, 1 / (1 - corrWeight))
         else (ETransient, 1))
      else (cur, 1))"

text \<open>Lines 498--549: \<open>s = 1\<close>, the emitter end is sampled directly.\<close>

definition directEmitter ::
  "BDPTWorkResult \<Rightarrow> Float list \<Rightarrow> Float list \<Rightarrow> Float \<Rightarrow> int \<Rightarrow> int \<Rightarrow> Connection
    \<Rightarrow> error + Endpoints" where
  "directEmitter wr emitterPathlength sensorPathlength target s t c =
     (if vtIsDegenerate c then Inr Skip
      else
        let cur0 = m_decompositionType wr;
            value0 = specMul (radianceWeight c) (sampleDirectResult c);
            pathLength0 = (if cur0 \<noteq> ESteadyState then sensorPathlength ! nat t else 0)
        in if isZero value0 then Inr Skip
        else
          let value1 = specMul value0 (vtEval c);
              tempPathLength =
                (if cur0 = ETransient \<or> cur0 = ETransientEllipse
                 then pathLength0 + vsVtDistance c else 0);
              cur1 =
                (if m_combineBDPTAndElliptic wr \<and> cur0 = ETransientEllipse
                    \<and> tempPathLength \<ge> m_decompositionMinBound wr
                    \<and> tempPathLength \<le> m_decompositionMaxBound wr
                 then ETransient else cur0)
          in if cur1 = ETransientEllipse
                \<and> \<not> (\<not> m_combineBDPTAndElliptic wr \<or> tempPathLength \<le> m_decompositionMinBound wr)
             then Inr Skip
             else if cur1 = ETransientEllipse
                \<and> (target - emitterPathlength ! nat s - sensorPathlength ! nat t < 0
                    \<or> \<not> ellipsoidalSampleOk c)
             then Inr Skip
             else
               Inr (Proceed
                 \<lparr> p_type = cur1,
                   p_pathLength =
                     (if cur1 = ETransientEllipse
                      then pathLength0 + (connectionEdge1Length c + connectionEdge2Length c)
                      else if cur1 = ETransient then tempPathLength
                      else if cur1 = EBounce then pathLength0 + 1
                      else pathLength0),
                   p_value = value1, p_sampleDirect = True, p_corrWeight = 1 \<rparr>))"

text \<open>Lines 550--612: \<open>t = 1\<close>, the sensor end is sampled directly.\<close>

definition directSensor ::
  "BDPTWorkResult \<Rightarrow> Float list \<Rightarrow> Float list \<Rightarrow> Float \<Rightarrow> int \<Rightarrow> int \<Rightarrow> Connection
    \<Rightarrow> error + Endpoints" where
  "directSensor wr emitterPathlength sensorPathlength target s t c =
     (if vsIsDegenerate c then Inr Skip
      else
        let cur0 = m_decompositionType wr;
            value0 = specMul (importanceWeight c) (sampleDirectResult c);
            pathLength0 = (if cur0 \<noteq> ESteadyState then emitterPathlength ! nat s else 0)
        in if isZero value0 then Inr Skip
        else
          let value1 = specMul value0 (vsEval c);
              tempPathLength =
                (if cur0 = ETransient \<or> cur0 = ETransientEllipse
                 then pathLength0 + vsVtDistance c else 0)
          in case chooseDecomposition wr c cur0 tempPathLength of (cur1, corrWeight) \<Rightarrow>
             if cur1 = ETransientEllipse
             then Inl (EError ''Cannot make Direct Ellipsoidal connections'')
             else
               Inr (Proceed
                 \<lparr> p_type = cur1,
                   p_pathLength =
                     (if cur1 = ETransient then tempPathLength
                      else if cur1 = EBounce then pathLength0 + 1
                      else pathLength0),
                   p_value = value1, p_sampleDirect = True, p_corrWeight = corrWeight \<rparr>))"

text \<open>Lines 615--695: both ends come from the subpaths.\<close>

definition generalConnect ::
  "BDPTWorkResult \<Rightarrow> Float list \<Rightarrow> Float list \<Rightarrow> Float \<Rightarrow> int \<Rightarrow> int \<Rightarrow> Connection
    \<Rightarrow> error + Endpoints" where
  "generalConnect wr emitterPathlength sensorPathlength target s t c =
     (if vsIsDegenerate c \<or> vtIsDegenerate c then Inr Skip
      else
        let cur0 = m_decompositionType wr;
            tempPathLength =
              (if cur0 = ETransient \<or> cur0 = ETransientEllipse
               then emitterPathlength ! nat s + sensorPathlength ! nat t + vsVtDistance c
               else 0)
        in case chooseDecomposition wr c cur0 tempPathLength of (cur1, corrWeight) \<Rightarrow>
           let value0 =
                 (if cur1 \<noteq> ETransientEllipse
                  then specMul (specMul (specMul (importanceWeight c) (radianceWeight c))
                         (vsEval c)) (vtEval c)
                  else specMul (importanceWeight c) (radianceWeight c))
           in if cur1 = ETransientEllipse then
                (if \<not> m_combineBDPTAndElliptic wr \<or> tempPathLength \<le> m_decompositionMinBound wr
                 then
                   let pathLengthRemaining =
                         target - emitterPathlength ! nat s - sensorPathlength ! nat t
                   in if \<not> isZero value0 \<and> pathLengthRemaining > 0
                      then Inr (EllipticInsert pathLengthRemaining
                                  (emitterPathlength ! nat s + sensorPathlength ! nat t))
                      else Inr Skip
                 else Inr Skip)
              else
                Inr (Proceed
                  \<lparr> p_type = cur1,
                    p_pathLength =
                      (if cur1 = ETransient then tempPathLength
                       else if cur1 = EBounce
                       then emitterPathlength ! nat s + sensorPathlength ! nat t + 1
                       else 0),
                    p_value = value0, p_sampleDirect = False, p_corrWeight = corrWeight \<rparr>))"

text \<open>Lines 459--695: the dispatch. Both super-node branches leave the iteration at once.\<close>

definition connectEndpoints ::
  "BDPTConfiguration \<Rightarrow> BDPTWorkResult \<Rightarrow> Float list \<Rightarrow> Float list \<Rightarrow> Float \<Rightarrow> int \<Rightarrow> int
    \<Rightarrow> Connection \<Rightarrow> error + Endpoints" where
  "connectEndpoints config wr emitterPathlength sensorPathlength target s t c =
     (if vsIsEmitterSupernode c then Inr Skip
      else if vtIsSensorSupernode c then Inr Skip
      else if sampleDirect config \<and> ((t = 1 \<and> s > 1) \<or> (s = 1 \<and> t > 1)) then
        (if s = 1 then directEmitter wr emitterPathlength sensorPathlength target s t c
         else directSensor wr emitterPathlength sensorPathlength target s t c)
      else generalConnect wr emitterPathlength sensorPathlength target s t c)"

subsection \<open>One connection: binning and accumulation (lines 756--791)\<close>

text \<open>
  \<^verbatim>\<open>size_t binIndex = floor(...)\<close>: the difference and the quotient are \<^verbatim>\<open>Float\<close> operations, and
  the conversion to the unsigned 64-bit type is written out as reduction modulo \<open>2^64\<close>.
  Only the case \<open>pathLength \<ge> Min\<close> matters, since the guard that follows refuses every
  other.
\<close>

definition binIndexOf :: "(Float \<Rightarrow> Float) \<Rightarrow> BDPTWorkResult \<Rightarrow> Float \<Rightarrow> nat" where
  "binIndexOf fl wr pathLength =
     nat (\<lfloor>fl (fl (pathLength - m_decompositionMinBound wr) / m_decompositionBinWidth wr)\<rfloor>
          mod 2 ^ 64)"


text \<open>
  Adding the three channels of a colour into bin \<open>k\<close> of a channel array: \<^verbatim>\<open>+=\<close> of a product,
  both rounded.
\<close>

definition addToBin ::
  "(Float \<Rightarrow> Float) \<Rightarrow> nat \<Rightarrow> Spectrum \<Rightarrow> Float \<Rightarrow> (nat \<Rightarrow> Float) \<Rightarrow> (nat \<Rightarrow> Float)" where
  "addToBin fl k rgb weight a =
     (case rgb of (r, g, b) \<Rightarrow>
        let a0 = a(k * 3 + 0 := fl (a (k * 3 + 0) + fl (r * weight)));
            a1 = a0(k * 3 + 1 := fl (a0 (k * 3 + 1) + fl (g * weight)))
        in a1(k * 3 + 2 := fl (a1 (k * 3 + 2) + fl (b * weight))))"

definition clearBin :: "nat \<Rightarrow> (nat \<Rightarrow> Float) \<Rightarrow> (nat \<Rightarrow> Float)" where
  "clearBin k a = a(k * 3 + 0 := 0, k * 3 + 1 := 0, k * 3 + 2 := 0)"

text \<open>Lines 756--784: the decomposed sample. The result is the MIS weight and the state.\<close>

definition binSample ::
  "(Float \<Rightarrow> Float) \<Rightarrow> BDPTWorkResult \<Rightarrow> EDecompositionType \<Rightarrow> int \<Rightarrow> Float \<Rightarrow> Spectrum \<Rightarrow> Float
    \<Rightarrow> Float \<Rightarrow> Point2 \<Rightarrow> Accum \<Rightarrow> Float \<times> Accum" where
  "binSample fl wr cur t pathLength v miWeight corrWeight samplePos acc =
     (if cur \<noteq> ESteadyState then
        (if cur = ETransient \<and> modulated wr
         then (miWeight * (correlationFunction wr pathLength * corrWeight), acc)
         else
           let binIndex = binIndexOf fl wr pathLength
           in if pathLength \<ge> m_decompositionMinBound wr
                 \<and> pathLength \<le> m_decompositionMaxBound wr
                 \<and> \<not> isZero v \<and> cur \<noteq> ESteadyState
                 \<and> binIndex \<ge> 0 \<and> binIndex < m_frames wr
              then
                (if t \<ge> 2 then
                   (miWeight,
                    acc\<lparr> sampleDecompositionValue :=
                           addToBin fl binIndex v miWeight (sampleDecompositionValue acc) \<rparr>)
                 else if t = 1 then
                   let l = addToBin fl binIndex v miWeight (l_sampleDecompositionValue acc)
                   in (miWeight,
                       acc\<lparr> lightSamples := lightSamples acc @ [(samplePos, ChannelSample l)],
                            l_sampleDecompositionValue := clearBin binIndex l \<rparr>)
                 else (miWeight, acc))
              else (miWeight, acc))
      else (miWeight, acc))"

text \<open>Lines 786--791: the steady-state or modulated sample.\<close>

definition steadySample ::
  "BDPTWorkResult \<Rightarrow> EDecompositionType \<Rightarrow> int \<Rightarrow> Spectrum \<Rightarrow> Float \<Rightarrow> Point2 \<Rightarrow> Accum \<Rightarrow> Accum" where
  "steadySample wr cur t v miWeight samplePos acc =
     (if cur = ESteadyState \<or> (m_decompositionType wr = ETransient \<and> modulated wr) then
        (if t \<ge> 2
         then acc\<lparr> sampleValue := specAdd (sampleValue acc) (specScale v miWeight) \<rparr>
         else acc\<lparr> lightSamples :=
                     lightSamples acc @ [(samplePos, SpectrumSample (specScale v miWeight))] \<rparr>)
      else acc)"

definition accumulate ::
  "(Float \<Rightarrow> Float) \<Rightarrow> BDPTWorkResult \<Rightarrow> EDecompositionType \<Rightarrow> int \<Rightarrow> Float \<Rightarrow> Spectrum \<Rightarrow> Float
    \<Rightarrow> Float \<Rightarrow> Point2 \<Rightarrow> Accum \<Rightarrow> Accum" where
  "accumulate fl wr cur t pathLength v miWeight corrWeight samplePos acc =
     (case binSample fl wr cur t pathLength v miWeight corrWeight samplePos acc of
        (miWeight', acc') \<Rightarrow> steadySample wr cur t v miWeight' samplePos acc')"

text \<open>
  Lines 699--792: connecting the two endpoints and committing the sample. Nothing
  happens here when the current type is still \<^verbatim>\<open>ETransientEllipse\<close>. The two calls of
  \<^verbatim>\<open>swapEndpoints\<close> around \<^verbatim>\<open>miWeight\<close> exchange the same stack objects twice and leave the
  subpaths as they were.
\<close>

definition connectAndCommit ::
  "(Float \<Rightarrow> Float) \<Rightarrow> BDPTWorkResult \<Rightarrow> int \<Rightarrow> Point2 \<Rightarrow> Prepared \<Rightarrow> Connection \<Rightarrow> Accum
    \<Rightarrow> Accum" where
  "connectAndCommit fl wr t initialSamplePos p c acc =
     (if p_type p \<noteq> ETransientEllipse then
        (if isZero (p_value p) \<or> \<not> pathConnectOk c then acc
         else
           let v = specMul (p_value p) (evalCached c);
               miWeight = miWeightResult c
           in if vtIsSensorSample c then
                (case getSamplePosition c of
                   None \<Rightarrow> acc
                 | Some samplePos \<Rightarrow>
                     accumulate fl wr (p_type p) t (p_pathLength p) v miWeight (p_corrWeight p)
                       samplePos acc)
              else accumulate fl wr (p_type p) t (p_pathLength p) v miWeight (p_corrWeight p)
                     initialSamplePos acc)
      else acc)"

text \<open>
  Modelled from the spec: the long form of \<^verbatim>\<open>EllipsoidalSampleBetween\<close> (lines 669--675 call
  it) is not in the translated files. By the specification it inserts one vertex whose
  two new edges have lengths summing to the residual \<open>R\<close> (\<^verbatim>\<open>PathLengthRemaining\<close>), and the
  evaluator then accumulates the decomposed RGB into the bin containing \<open>Le + Ls + R\<close>,
  where \<open>Le + Ls\<close> is the \<^verbatim>\<open>tempPathLength\<close> handed over: the accumulation step of the
  evaluator, for the current type \<^verbatim>\<open>ETransientEllipse\<close>.
\<close>

definition ellipticCommit ::
  "(Float \<Rightarrow> Float) \<Rightarrow> BDPTWorkResult \<Rightarrow> int \<Rightarrow> Point2 \<Rightarrow> Float \<Rightarrow> Float \<Rightarrow> Connection \<Rightarrow> Accum
    \<Rightarrow> Accum" where
  "ellipticCommit fl wr t samplePos pathLengthRemaining tempPathLength c acc =
     (case ellipticSample c of
        None \<Rightarrow> acc
      | Some (v, miWeight) \<Rightarrow>
          accumulate fl wr ETransientEllipse t (fl (tempPathLength + pathLengthRemaining))
            v miWeight 1 samplePos acc)"

subsection \<open>The loops over \<open>s\<close> and \<open>t\<close> and the whole of evaluate\<close>

text \<open>Lines 418--426 and the body: one iteration for the pair \<open>(s, t)\<close>.\<close>

definition connection ::
  "(Float \<Rightarrow> Float) \<Rightarrow> BDPTConfiguration \<Rightarrow> BDPTWorkResult \<Rightarrow> bool \<Rightarrow> Float list \<Rightarrow> Float list
    \<Rightarrow> Float \<Rightarrow> Point2 \<Rightarrow> (int \<Rightarrow> int \<Rightarrow> Connection) \<Rightarrow> int \<Rightarrow> int \<Rightarrow> Accum \<Rightarrow> error + Accum" where
  "connection fl config wr isEmitterLaser emitterPathlength sensorPathlength target
      initialSamplePos ext s t acc =
     (if s = 0 \<or> t = 0 \<or> (m_decompositionType wr = ETransient \<and> s = 1 \<and> t = 1) then Inr acc
      else if isEmitterLaser \<and> m_decompositionType wr = ETransient \<and> s = 2 \<and> t = 1 then Inr acc
      else if m_forceBounces wr \<and> (s \<noteq> m_sBounces wr \<or> t \<noteq> m_tBounces wr) then Inr acc
      else
        (case connectEndpoints config wr emitterPathlength sensorPathlength target s t (ext s t) of
           Inl e \<Rightarrow> Inl e
         | Inr Skip \<Rightarrow> Inr acc
         | Inr (EllipticInsert pathLengthRemaining tempPathLength) \<Rightarrow>
             Inr (ellipticCommit fl wr t initialSamplePos pathLengthRemaining tempPathLength
                    (ext s t) acc)
         | Inr (Proceed p) \<Rightarrow> Inr (connectAndCommit fl wr t initialSamplePos p (ext s t) acc)))"

text \<open>Lines 412--417: the values \<open>t\<close> takes for a given \<open>s\<close>, in the order of the loop.\<close>

definition tRange :: "BDPTConfiguration \<Rightarrow> BDPTWorkResult \<Rightarrow> int \<Rightarrow> int \<Rightarrow> int list" where
  "tRange config wr sensorVertexCount s =
     (let maxDepth' =
            (if m_decompositionType wr = ETransientEllipse then maxDepth config - 1
             else maxDepth config);
          minT = max (2 - s) (if lightImage config then 0 else 2);
          maxT0 = sensorVertexCount - 1;
          maxT = (if maxDepth config \<noteq> - 1 then min maxT0 (maxDepth' + 1 - s) else maxT0)
      in rev [minT .. maxT])"

definition connectionPairs ::
  "BDPTConfiguration \<Rightarrow> BDPTWorkResult \<Rightarrow> int \<Rightarrow> int \<Rightarrow> (int \<times> int) list" where
  "connectionPairs config wr emitterVertexCount sensorVertexCount =
     concat (map (\<lambda>s. map (\<lambda>t. (s, t)) (tRange config wr sensorVertexCount s))
                 (rev [0 .. emitterVertexCount - 1]))"

fun forPairs ::
  "(int \<Rightarrow> int \<Rightarrow> Accum \<Rightarrow> error + Accum) \<Rightarrow> (int \<times> int) list \<Rightarrow> Accum \<Rightarrow> error + Accum" where
  "forPairs body [] acc = Inr acc"
| "forPairs body ((s, t) # rest) acc =
     (case body s t acc of Inl e \<Rightarrow> Inl e | Inr acc' \<Rightarrow> forPairs body rest acc')"

text \<open>Lines 389--407: the accumulators before the loops.\<close>

definition initialAccum :: "BDPTWorkResult \<Rightarrow> Accum" where
  "initialAccum wr =
     \<lparr> sampleValue = (0, 0, 0), meanSpectrum = (0, 0, 0),
       sampleDecompositionValue = (\<lambda>i. 0),
       l_sampleDecompositionValue =
         (if m_decompositionType wr \<noteq> ESteadyState
          then (\<lambda>i. 0)(getChannelCount wr - 1 := 1, getChannelCount wr - 2 := 1)
          else (\<lambda>i. 0)),
       lightSamples = [] \<rparr>"

text \<open>Lines 795--801: the sample put for the pixel.\<close>

definition pixelSampleOf :: "BDPTWorkResult \<Rightarrow> Accum \<Rightarrow> Sample" where
  "pixelSampleOf wr acc =
     (if m_decompositionType wr = ESteadyState
         \<or> ((m_decompositionType wr = ETransient \<or> m_decompositionType wr = ETransientEllipse)
             \<and> modulated wr)
      then SpectrumSample (sampleValue acc)
      else ChannelSample ((sampleDecompositionValue acc)
             (getChannelCount wr - 2 := 1, getChannelCount wr - 1 := 1)))"

text \<open>
  \<^verbatim>\<open>evaluate\<close>: the three scratch objects are taken from the pool, the loops run, the pixel
  sample is put and the scratch objects are given back. The result is the pool, the
  sample put for the pixel and the accumulators (with the light samples and the returned
  \<^verbatim>\<open>meanSpectrum\<close>). An error leaves the function where it is raised.
\<close>

definition evaluate ::
  "(Float \<Rightarrow> Float) \<Rightarrow> BDPTConfiguration \<Rightarrow> BDPTWorkResult \<Rightarrow> bool \<Rightarrow> (nat \<Rightarrow> Float) \<Rightarrow> (nat \<Rightarrow> Float)
    \<Rightarrow> nat \<Rightarrow> nat \<Rightarrow> Float \<Rightarrow> Point2 \<Rightarrow> (int \<Rightarrow> int \<Rightarrow> Connection) \<Rightarrow> MemoryPool
    \<Rightarrow> error + (MemoryPool \<times> Sample \<times> Accum)" where
  "evaluate fl config wr isEmitterLaser emitterEdgeLength sensorEdgeLength emitterVertexCount
      sensorVertexCount target initialSamplePos ext pool =
     (case allocEdge pool of (connectionEdge1, pool1) \<Rightarrow>
      case allocEdge pool1 of (connectionEdge2, pool2) \<Rightarrow>
      case allocVertex pool2 of (connectionVertex, pool3) \<Rightarrow>
        let emitterPathlength =
              pathlengths (m_decompositionType wr) emitterEdgeLength emitterVertexCount;
            sensorPathlength =
              pathlengths (m_decompositionType wr) sensorEdgeLength sensorVertexCount
        in case forPairs
                  (connection fl config wr isEmitterLaser emitterPathlength sensorPathlength
                     target initialSamplePos ext)
                  (connectionPairs config wr (int emitterVertexCount) (int sensorVertexCount))
                  (initialAccum wr) of
             Inl e \<Rightarrow> Inl e
           | Inr acc \<Rightarrow>
               let pool4 = releaseEdge connectionEdge1 pool3;
                   pool5 = releaseEdge connectionEdge2 pool4;
                   pool6 = releaseVertex connectionVertex pool5
               in Inr (pool6, pixelSampleOf wr acc, acc))"

text \<open>
  Lines 121--151 of \<^verbatim>\<open>process\<close>: one pixel sample. \<open>emitterSteps\<close> and \<open>sensorSteps\<close> are the
  numbers of steps the random walk takes on the two subpaths.
\<close>

definition pixelSample ::
  "(Float \<Rightarrow> Float) \<Rightarrow> BDPTConfiguration \<Rightarrow> BDPTWorkResult \<Rightarrow> bool \<Rightarrow> (nat \<Rightarrow> Float) \<Rightarrow> (nat \<Rightarrow> Float)
    \<Rightarrow> nat \<Rightarrow> nat \<Rightarrow> Float \<Rightarrow> Point2 \<Rightarrow> (int \<Rightarrow> int \<Rightarrow> Connection) \<Rightarrow> MemoryPool
    \<Rightarrow> error + (MemoryPool \<times> Sample \<times> Accum)" where
  "pixelSample fl config wr isEmitterLaser emitterEdgeLength sensorEdgeLength emitterSteps
      sensorSteps target initialSamplePos ext pool =
     (case Path_initialize pool of (emitterSubpath0, pool1) \<Rightarrow>
      case Path_initialize pool1 of (sensorSubpath0, pool2) \<Rightarrow>
      case Path_grow emitterSteps emitterSubpath0 pool2 of (emitterSubpath, pool3) \<Rightarrow>
      case Path_grow sensorSteps sensorSubpath0 pool3 of (sensorSubpath, pool4) \<Rightarrow>
      case evaluate fl config wr isEmitterLaser emitterEdgeLength sensorEdgeLength
             (length (vertices emitterSubpath)) (length (vertices sensorSubpath))
             target initialSamplePos ext pool4 of
        Inl e \<Rightarrow> Inl e
      | Inr (pool5, sample, acc) \<Rightarrow>
          let pool6 = Path_release emitterSubpath pool5;
              pool7 = Path_release sensorSubpath pool6
          in Inr (pool7, sample, acc))"

section \<open>Film: serialization (film.cpp, lines 111--151)\<close>

text \<open>
  Modelled from the spec: the \<^verbatim>\<open>Stream\<close> primitives (\<^verbatim>\<open>writeBool\<close>, \<^verbatim>\<open>writeUInt\<close>, \<^verbatim>\<open>writeFloat\<close>,
  \<^verbatim>\<open>writeSize\<close> and their readers) and the serialization of \<^verbatim>\<open>Vector2i\<close> and \<^verbatim>\<open>Point2i\<close> are
  not in the translated files. The configuration is persisted as a flat record, so the
  stream is a list of bytes, every primitive has a fixed width (one byte for a boolean,
  four for an integer or a float, eight for a size, most significant byte first), and a
  read from a stream that is too short fails. A float travels as its bit pattern.
\<close>

type_synonym byte = "8 word"

fun natBytes :: "nat \<Rightarrow> nat \<Rightarrow> byte list" where
  "natBytes 0 n = []"
| "natBytes (Suc k) n = natBytes k (n div 256) @ [of_nat (n mod 256)]"

definition bytesNat :: "byte list \<Rightarrow> nat" where
  "bytesNat bs = foldl (\<lambda>a b. a * 256 + unat b) 0 bs"

definition writeBool :: "bool \<Rightarrow> byte list" where
  "writeBool b = [if b then 1 else 0]"

definition readBool :: "byte list \<Rightarrow> (bool \<times> byte list) option" where
  "readBool stream = (case stream of [] \<Rightarrow> None | b # rest \<Rightarrow> Some (b \<noteq> 0, rest))"

definition writeUInt :: "32 word \<Rightarrow> byte list" where
  "writeUInt w = natBytes 4 (unat w)"

definition readUInt :: "byte list \<Rightarrow> (32 word \<times> byte list) option" where
  "readUInt stream =
     (if length stream < 4 then None
      else Some (of_nat (bytesNat (take 4 stream)), drop 4 stream))"

definition writeFloat :: "32 word \<Rightarrow> byte list" where
  "writeFloat bits = writeUInt bits"

definition readFloat :: "byte list \<Rightarrow> (32 word \<times> byte list) option" where
  "readFloat stream = readUInt stream"

definition writeSize :: "64 word \<Rightarrow> byte list" where
  "writeSize w = natBytes 8 (unat w)"

definition readSize :: "byte list \<Rightarrow> (64 word \<times> byte list) option" where
  "readSize stream =
     (if length stream < 8 then None
      else Some (of_nat (bytesNat (take 8 stream)), drop 8 stream))"

type_synonym Vector2i = "32 word \<times> 32 word"

definition Vector2i_serialize :: "Vector2i \<Rightarrow> byte list" where
  "Vector2i_serialize v = writeUInt (fst v) @ writeUInt (snd v)"

definition Vector2i_unserialize :: "byte list \<Rightarrow> (Vector2i \<times> byte list) option" where
  "Vector2i_unserialize stream0 = do {
     (x, stream1) \<leftarrow> readUInt stream0;
     (y, stream2) \<leftarrow> readUInt stream1;
     Some ((x, y), stream2) }"

text \<open>
  The members of \<^verbatim>\<open>Film\<close>. Integers and enumeration values are the 32-bit words the stream
  carries, floats their bit patterns, sizes 64-bit words. Members whose names the
  configuration records above already use carry the prefix \<open>film_\<close> in place of \<open>m_\<close>. The
  reconstruction filter and the path-length sampler are objects of types \<open>'rf\<close> and \<open>'pls\<close>.
\<close>

record ('rf, 'pls) Film =
  m_size :: Vector2i
  m_cropOffset :: Vector2i
  m_cropSize :: Vector2i
  m_highQualityEdges :: bool
  film_decompositionType :: "32 word"
  film_combineBDPTAndElliptic :: bool
  film_decompositionMinBound :: "32 word"
  film_decompositionMaxBound :: "32 word"
  film_decompositionBinWidth :: "32 word"
  film_isldSampling :: bool
  film_isAdaptive :: bool
  film_adapMaxError :: "32 word"
  m_adapPValue :: "32 word"
  film_adapQuantile :: "32 word"
  film_adapMaxSampleFactor :: "32 word"
  film_frames :: "64 word"
  m_subSamples :: "64 word"
  film_forceBounces :: bool
  film_sBounces :: "32 word"
  film_tBounces :: "32 word"
  m_filter :: 'rf
  m_pathLengthSampler :: 'pls

text \<open>
  \<^verbatim>\<open>Film::serialize\<close>. \<open>serializeFilter\<close> and \<open>serializeSampler\<close> are what
  \<^verbatim>\<open>manager->serialize(stream, ...)\<close> writes for the two objects; the base class
  \<^verbatim>\<open>ConfigurableObject\<close> writes nothing of its own.
\<close>

definition Film_serialize ::
  "('rf \<Rightarrow> byte list) \<Rightarrow> ('pls \<Rightarrow> byte list) \<Rightarrow> ('rf, 'pls) Film \<Rightarrow> byte list" where
  "Film_serialize serializeFilter serializeSampler film =
     Vector2i_serialize (m_size film)
     @ Vector2i_serialize (m_cropOffset film)
     @ Vector2i_serialize (m_cropSize film)
     @ writeBool (m_highQualityEdges film)
     @ writeUInt (film_decompositionType film)
     @ writeBool (film_combineBDPTAndElliptic film)
     @ writeFloat (film_decompositionMinBound film)
     @ writeFloat (film_decompositionMaxBound film)
     @ writeFloat (film_decompositionBinWidth film)
     @ writeSize (film_frames film)
     @ writeSize (m_subSamples film)
     @ writeBool (film_forceBounces film)
     @ writeUInt (film_sBounces film)
     @ writeUInt (film_tBounces film)
     @ serializeFilter (m_filter film)
     @ serializeSampler (m_pathLengthSampler film)"

text \<open>
  The constructor \<^verbatim>\<open>Film(Stream*, InstanceManager*)\<close>. \<open>getFilter\<close> and \<open>getSampler\<close> are
  \<^verbatim>\<open>manager->getInstance(stream)\<close> for the two objects. The constructor assigns only the
  members it reads; \<open>uninitialized\<close> supplies the values the others happen to have. The
  result is the film and the rest of the stream.
\<close>

definition Film_unserialize ::
  "(byte list \<Rightarrow> ('rf \<times> byte list) option) \<Rightarrow> (byte list \<Rightarrow> ('pls \<times> byte list) option)
    \<Rightarrow> ('rf, 'pls) Film \<Rightarrow> byte list \<Rightarrow> (('rf, 'pls) Film \<times> byte list) option" where
  "Film_unserialize getFilter getSampler uninitialized stream0 = do {
     (size, stream1) \<leftarrow> Vector2i_unserialize stream0;
     (cropOffset, stream2) \<leftarrow> Vector2i_unserialize stream1;
     (cropSize, stream3) \<leftarrow> Vector2i_unserialize stream2;
     (highQualityEdges, stream4) \<leftarrow> readBool stream3;
     (decompositionType, stream5) \<leftarrow> readUInt stream4;
     (combineBDPTAndElliptic, stream6) \<leftarrow> readBool stream5;
     (decompositionMinBound, stream7) \<leftarrow> readFloat stream6;
     (decompositionMaxBound, stream8) \<leftarrow> readFloat stream7;
     (decompositionBinWidth, stream9) \<leftarrow> readFloat stream8;
     (frames, stream10) \<leftarrow> readSize stream9;
     (subSamples, stream11) \<leftarrow> readSize stream10;
     (forceBounces, stream12) \<leftarrow> readBool stream11;
     (sBounces, stream13) \<leftarrow> readUInt stream12;
     (tBounces, stream14) \<leftarrow> readUInt stream13;
     (filter, stream15) \<leftarrow> getFilter stream14;
     (pathLengthSampler, stream16) \<leftarrow> getSampler stream15;
     Some (uninitialized\<lparr>
         m_size := size, m_cropOffset := cropOffset, m_cropSize := cropSize,
         m_highQualityEdges := highQualityEdges,
         film_decompositionType := decompositionType,
         film_combineBDPTAndElliptic := combineBDPTAndElliptic,
         film_decompositionMinBound := decompositionMinBound,
         film_decompositionMaxBound := decompositionMaxBound,
         film_decompositionBinWidth := decompositionBinWidth,
         film_frames := frames, m_subSamples := subSamples,
         film_forceBounces := forceBounces,
         film_sBounces := sBounces, film_tBounces := tBounces,
         m_filter := filter, m_pathLengthSampler := pathLengthSampler \<rparr>, stream16) }"

text \<open>A concrete configuration used to instantiate the theorems below.\<close>

definition exampleConfig :: BDPTConfiguration where
  "exampleConfig =
     \<lparr> m_decompositionType = ETransientEllipse, m_combineBDPTAndElliptic = False,
       m_decompositionMinBound = 0, m_decompositionMaxBound = 4,
       m_decompositionBinWidth = 1, m_frames = 4,
       m_forceBounces = False, m_sBounces = 0, m_tBounces = 0,
       maxDepth = 5, rrDepth = 5, sampleDirect = True, lightImage = True,
       m_isldSampling = True, m_isAdaptive = False,
       m_adapMaxError = 1 / 20, m_adapQuantile = 2, m_adapMaxSampleFactor = 8 \<rparr>"

definition negativeFactorConfig :: BDPTConfiguration where
  "negativeFactorConfig = exampleConfig\<lparr> m_adapMaxSampleFactor := - 1 \<rparr>"

definition neverStop :: "nat \<Rightarrow> bool" where
  "neverStop i = False"

definition unitLuminance :: "nat \<Rightarrow> Float" where
  "unitLuminance i = 1"

definition blackBitmap :: "nat \<Rightarrow> Float" where
  "blackBitmap a = 0"

definition addFour :: "(nat \<Rightarrow> Float) \<Rightarrow> (nat \<Rightarrow> Float)" where
  "addFour target = (\<lambda>a. target a + 4)"

text \<open>A one-byte object encoding and two films for instantiating the serialization theorem.\<close>

definition byteSerialize :: "byte \<Rightarrow> byte list" where
  "byteSerialize b = [b]"

definition byteGetInstance :: "byte list \<Rightarrow> (byte \<times> byte list) option" where
  "byteGetInstance stream = (case stream of [] \<Rightarrow> None | b # rest \<Rightarrow> Some (b, rest))"

definition exampleFilm :: "(byte, byte) Film" where
  "exampleFilm =
     \<lparr> m_size = (768, 576), m_cropOffset = (0, 0), m_cropSize = (768, 576),
       m_highQualityEdges = False, film_decompositionType = 3,
       film_combineBDPTAndElliptic = True,
       film_decompositionMinBound = 0, film_decompositionMaxBound = 0x41000000,
       film_decompositionBinWidth = 0x3D4CCCCD,
       film_isldSampling = False, film_isAdaptive = True,
       film_adapMaxError = 0x3D4CCCCD, m_adapPValue = 0x3D4CCCCD,
       film_adapQuantile = 0x3FFAE148, film_adapMaxSampleFactor = 8,
       film_frames = 160, m_subSamples = 1, film_forceBounces = False,
       film_sBounces = 0, film_tBounces = 0, m_filter = 7, m_pathLengthSampler = 9 \<rparr>"

definition blankFilm :: "(byte, byte) Film" where
  "blankFilm =
     \<lparr> m_size = (0, 0), m_cropOffset = (0, 0), m_cropSize = (0, 0),
       m_highQualityEdges = False, film_decompositionType = 0,
       film_combineBDPTAndElliptic = False,
       film_decompositionMinBound = 0, film_decompositionMaxBound = 0,
       film_decompositionBinWidth = 0,
       film_isldSampling = False, film_isAdaptive = False,
       film_adapMaxError = 0, m_adapPValue = 0,
       film_adapQuantile = 0, film_adapMaxSampleFactor = 0,
       film_frames = 0, m_subSamples = 0, film_forceBounces = False,
       film_sBounces = 0, film_tBounces = 0, m_filter = 0, m_pathLengthSampler = 0 \<rparr>"

text \<open>Work results, a connection and a pool for instantiating the theorems on evaluate.\<close>

definition unitCorrelation :: "Float \<Rightarrow> Float" where
  "unitCorrelation x = 1"

definition transientResult :: BDPTWorkResult where
  "transientResult =
     \<lparr> m_decompositionType = ETransient, m_combineBDPTAndElliptic = False,
       m_decompositionMinBound = 0, m_decompositionMaxBound = 4,
       m_decompositionBinWidth = 1, m_frames = 4,
       m_forceBounces = False, m_sBounces = 0, m_tBounces = 0,
       getChannelCount = 14, modulated = False, correlationFunction = unitCorrelation \<rparr>"


definition bounceResult :: BDPTWorkResult where
  "bounceResult = transientResult\<lparr> m_decompositionType := EBounce \<rparr>"

definition ellipseResult :: BDPTWorkResult where
  "ellipseResult = transientResult\<lparr> m_decompositionType := ETransientEllipse \<rparr>"

definition plainConnection :: Connection where
  "plainConnection =
     \<lparr> vsIsEmitterSupernode = False, vtIsSensorSupernode = False,
       vsIsDegenerate = False, vtIsDegenerate = False,
       importanceWeight = (1, 1, 1), radianceWeight = (1, 1, 1),
       sampleDirectResult = (1, 1, 1), vsEval = (1, 1, 1), vtEval = (1, 1, 1),
       vsVtDistance = 1, samplerNextFloat = 1 / 2, ellipsoidalSampleOk = True,
       connectionEdge1Length = 1, connectionEdge2Length = 1,
       ellipticSample = Some ((1, 1, 1), 1),
       pathConnectOk = True, evalCached = (1, 1, 1), miWeightResult = 1,
       vtIsSensorSample = False, getSamplePosition = None \<rparr>"

definition plainConnections :: "int \<Rightarrow> int \<Rightarrow> Connection" where
  "plainConnections s t = plainConnection"

definition unitEdgeLength :: "nat \<Rightarrow> Float" where
  "unitEdgeLength i = 1"

definition emptyPool :: MemoryPool where
  "emptyPool = \<lparr> vertexInFlight = [], vertexNext = 0, edgeInFlight = [], edgeNext = 0 \<rparr>"

section \<open>Theorems\<close>

subsection \<open>Rounding to single precision\<close>

lemma pow2_pos: "0 < pow2 e"
  by (simp add: pow2_def)

lemma pow2_powr: "pow2 e = 2 powr of_int e"
  by (simp add: pow2_def powr_real_of_int inverse_eq_divide)

lemma roundTiesToEven_nonneg: "0 \<le> y \<Longrightarrow> 0 \<le> roundTiesToEven y"
  by (auto simp add: roundTiesToEven_def Let_def)

lemma roundTiesToEven_of_int: "roundTiesToEven (of_int n) = n"
  by (simp add: roundTiesToEven_def)


lemma binary32_zero: "binary32 0 = 0"
  by (simp add: binary32_def)

text \<open>Rounding keeps the sign of a non-negative number and at most doubles it.\<close>

lemma binary32_nonneg: "0 \<le> x \<Longrightarrow> 0 \<le> binary32 x"
  using pow2_pos
  by (auto simp add: binary32_def Let_def less_imp_le
      intro!: mult_nonneg_nonneg roundTiesToEven_nonneg divide_nonneg_nonneg)


text \<open>The value of the rounding once the binade of the argument is known.\<close>

lemma binary32_binade:
  assumes "pow2 e \<le> \<bar>x\<bar>" "\<bar>x\<bar> < pow2 (e + 1)" "- 126 \<le> e"
  shows "binary32 x = of_int (roundTiesToEven (x / pow2 (e - 23))) * pow2 (e - 23)"
proof -
  have pos: "0 < \<bar>x\<bar>" using assms(1) pow2_pos[of e] by linarith
  then have x0: "x \<noteq> 0" by auto
  have "\<lfloor>log 2 \<bar>x\<bar>\<rfloor> = e"
    using assms(1,2) pos by (simp add: floor_log_eq_powr_iff pow2_powr)
  then show ?thesis using x0 assms(3) by (simp add: binary32_def Let_def)
qed

text \<open>Values met in the examples below.\<close>

lemma binary32_1: "binary32 1 = 1"
  using binary32_binade[of 0 1] by (simp add: pow2_def roundTiesToEven_def)

lemma binary32_2: "binary32 2 = 2"
  using binary32_binade[of 1 2] by (simp add: pow2_def roundTiesToEven_def)

lemma binary32_3: "binary32 3 = 3"
  using binary32_binade[of 1 3] by (simp add: pow2_def roundTiesToEven_def)

lemma binary32_half: "binary32 (1 / 2) = 1 / 2"
  using binary32_binade[of "- 1" "1 / 2"] by (simp add: pow2_def roundTiesToEven_def)

lemma binary32_5_2: "binary32 (5 / 2) = 5 / 2"
  using binary32_binade[of 1 "5 / 2"] by (simp add: pow2_def roundTiesToEven_def)

text \<open>\<open>1 - 2^-23\<close>, the greatest single-precision number below 1, and its sums with 1, 2, 3.\<close>

lemma binary32_below_1: "binary32 (8388607 / 8388608) = 8388607 / 8388608"
  using binary32_binade[of "- 1" "8388607 / 8388608"]
  by (simp add: pow2_def roundTiesToEven_def)

lemma binary32_below_2: "binary32 (16777215 / 8388608) = 16777215 / 8388608"
  using binary32_binade[of 0 "16777215 / 8388608"]
  by (simp add: pow2_def roundTiesToEven_def)

lemma binary32_below_3: "binary32 (25165823 / 8388608) = 3"
  using binary32_binade[of 1 "25165823 / 8388608"]
  by (simp add: pow2_def roundTiesToEven_def)

lemma binary32_below_4: "binary32 (33554431 / 8388608) = 4"
  using binary32_binade[of 1 "33554431 / 8388608"]
  by (simp add: pow2_def roundTiesToEven_def)

text \<open>The literal \<^verbatim>\<open>0.1f\<close>, and one half divided by it.\<close>

lemma binary32_tenth: "binary32 (1 / 10) = 13421773 / 134217728"
  using binary32_binade[of "- 4" "1 / 10"] by (simp add: pow2_def roundTiesToEven_def)

lemma binary32_half_by_tenth: "binary32 (67108864 / 13421773) = 5"
  using binary32_binade[of 2 "67108864 / 13421773"]
  by (simp add: pow2_def roundTiesToEven_def)

lemmas binary32_values =
  binary32_zero binary32_1 binary32_2 binary32_3 binary32_half binary32_5_2
  binary32_below_1 binary32_below_2 binary32_below_3 binary32_below_4
  binary32_tenth binary32_half_by_tenth

subsection \<open>The emitter check\<close>

lemma forEach_const:
  "forEach (\<lambda>i. r) xs = (if xs = [] then Inr () else r)"
  by (induction xs) (auto split: sum.splits)

lemma emitterCheck_first:
  "emitterCheck eo ep li es =
     (if es = [] then Inr () else emitterCheckBody eo ep li es 0)"
proof -
  have "emitterCheckBody eo ep li es = (\<lambda>i. emitterCheckBody eo ep li es 0)"
    by (rule ext) (simp add: emitterCheckBody_def)
  then have "emitterCheck eo ep li es
      = forEach (\<lambda>i. emitterCheckBody eo ep li es 0) [0 ..< length es]"
    by (simp add: emitterCheck_def)
  then show ?thesis by (simp add: forEach_const)
qed

text \<open>
  C4. The claim: with \<^verbatim>\<open>lightImage\<close> on, a projector-type emitter anywhere in the emitter
  list makes \<^verbatim>\<open>process\<close> fail. The code inspects \<^verbatim>\<open>emitters[0]\<close> in every iteration: for
  the list of an emitter without projector bits followed by a perspective emitter (the
  flags taken as bits \<open>0x100\<close> and \<open>0x200\<close>), the check passes although the second emitter
  is a projector, while the same two emitters in the other order are refused.
\<close>

theorem emitterCheck_misses_later_projector:
  "emitterCheck 0x100 0x200 True [\<lparr>getType = 0x10\<rparr>, \<lparr>getType = 0x200\<rparr>] = Inr ()
   \<and> emitterCheck 0x100 0x200 True [\<lparr>getType = 0x200\<rparr>, \<lparr>getType = 0x10\<rparr>]
       = Inl (EError ''Set lightImage to be false in the integrator for projectors to work'')"
  by (simp add: emitterCheck_first emitterCheckBody_def)

subsection \<open>Low-discrepancy path-length targets\<close>

lemma inBin_unique:
  assumes "0 < m_decompositionBinWidth config" "inBin config k l" "inBin config k' l"
  shows "k = k'"
proof -
  let ?w = "m_decompositionBinWidth config"
  have a: "?w * real k < ?w * (real k' + 1)" using assms(2,3) by (simp add: inBin_def)
  have b: "?w * real k' < ?w * (real k + 1)" using assms(2,3) by (simp add: inBin_def)
  from a assms(1) have "real k < real k' + 1" by simp
  moreover from b assms(1) have "real k' < real k + 1" by simp
  ultimately show ?thesis by linarith
qed

text \<open>Without rounding the target of sample \<open>j\<close> lies in bin \<open>j mod frames\<close>.\<close>

lemma ld_inBin:
  assumes "m_isldSampling config" "0 < m_decompositionBinWidth config" "0 \<le> u" "u < 1"
  shows "inBin config (j mod m_frames config) (pathLengthTarget (\<lambda>x. x) config j uni u)"
  using assms by (simp add: inBin_def pathLengthTarget_def algebra_simps)

lemma window_mod_ex:
  assumes "0 < (f::nat)" "k < f"
  shows "\<exists>j. a \<le> j \<and> j < a + f \<and> j mod f = k"
proof -
  define d where "d = (k + f - a mod f) mod f"
  have r: "a mod f < f" using assms by simp
  have "d < f" using assms by (simp add: d_def)
  moreover have "(a + d) mod f = k"
  proof -
    have "(a + d) mod f = (a mod f + (k + f - a mod f)) mod f"
      unfolding d_def by (simp add: mod_simps)
    also have "a mod f + (k + f - a mod f) = k + f" using r by simp
    finally show ?thesis using assms by simp
  qed
  ultimately show ?thesis by (intro exI[of _ "a + d"]) simp
qed

lemma window_mod_unique:
  assumes "a \<le> j" "j < a + f" "a \<le> j'" "j' < a + f" "j mod f = j' mod (f::nat)"
  shows "j = j'"
proof -
  have aux: "x = y" if "x \<le> y" "y < x + f" "x mod f = y mod f" for x y :: nat
  proof -
    have "(y - x) mod f = 0" using that by (metis mod_eq_dvd_iff_nat dvd_imp_mod_0)
    moreover have "y - x < f" using that by simp
    ultimately show ?thesis using that by simp
  qed
  show ?thesis
  proof (cases "j \<le> j'")
    case True
    then show ?thesis using aux[of j j'] assms by simp
  next
    case False
    then show ?thesis using aux[of j' j] assms by simp
  qed
qed

text \<open>
  In arithmetic without rounding, with low-discrepancy sampling on, a positive bin width,
  at least one frame and sampler values \<open>u j\<close> in \<open>[0, 1)\<close>: the target of sample \<open>j\<close> lies in
  bin \<open>j mod frames\<close>, and among any \<open>frames\<close> consecutive samples of a pixel every bin
  receives the target of exactly one.
\<close>

lemma ld_target_stratified_unrounded:
  assumes ld: "m_isldSampling config"
    and bw: "0 < m_decompositionBinWidth config"
    and fr: "0 < m_frames config"
    and u: "\<forall>j. 0 \<le> u j \<and> u j < 1"
    and k: "k < m_frames config"
  shows "\<exists>!i. a \<le> i \<and> i < a + m_frames config
              \<and> inBin config k (pathLengthTarget (\<lambda>x. x) config i (uni i) (u i))"
proof -
  let ?f = "m_frames config"
  let ?t = "\<lambda>i. pathLengthTarget (\<lambda>x. x) config i (uni i) (u i)"
  have own: "inBin config (i mod ?f) (?t i)" for i
    using ld bw u by (simp add: ld_inBin)
  from window_mod_ex[OF fr k, of a]
  obtain i where i: "a \<le> i" "i < a + ?f" "i mod ?f = k" by blast
  show "\<exists>!i. a \<le> i \<and> i < a + ?f \<and> inBin config k (?t i)"
  proof (rule ex1I[of _ i])
    show "a \<le> i \<and> i < a + ?f \<and> inBin config k (?t i)"
      using i own[of i] by simp
  next
    fix i'
    assume i': "a \<le> i' \<and> i' < a + ?f \<and> inBin config k (?t i')"
    then have "i' mod ?f = k"
      using inBin_unique[OF bw own[of i'], of k] by simp
    then show "i' = i"
      using window_mod_unique[of a i' ?f i] i i' by simp
  qed
qed

text \<open>
  C8. The claim: with low-discrepancy sampling the target of sample \<open>j\<close> is
  \<open>Min + BinWidth (j mod frames) + BinWidth u\<close> with \<open>u\<close> in \<open>[0, 1)\<close>, so every full cycle of
  \<open>frames\<close> samples puts exactly one target in each bin. In single precision the sum is
  rounded. For \<open>Min = 0\<close>, \<open>BinWidth = 1\<close>, \<open>frames = 4\<close> and \<open>u = 1 - 2^-23\<close>, the greatest
  single-precision number below 1: the target of sample 6 is \<open>2 + u\<close> rounded, which is 3
  and lies in bin 3 instead of bin 2; the target of sample 7 is 4, the upper bound
  itself; and of the cycle of samples 4, 5, 6, 7 no target lies in bin 2.
\<close>

theorem ld_target_rounds_out_of_bin:
  "binary32 (1 - 1 / 2 ^ 23) = 1 - 1 / 2 ^ 23
   \<and> (0::real) \<le> 1 - 1 / 2 ^ 23 \<and> (1::real) - 1 / 2 ^ 23 < 1
   \<and> pathLengthTarget binary32 exampleConfig 6 0 (1 - 1 / 2 ^ 23) = 3
   \<and> inBin exampleConfig 3 (pathLengthTarget binary32 exampleConfig 6 0 (1 - 1 / 2 ^ 23))
   \<and> pathLengthTarget binary32 exampleConfig 7 0 (1 - 1 / 2 ^ 23)
       = m_decompositionMaxBound exampleConfig
   \<and> \<not> inBin exampleConfig 2 (pathLengthTarget binary32 exampleConfig 4 0 (1 - 1 / 2 ^ 23))
   \<and> \<not> inBin exampleConfig 2 (pathLengthTarget binary32 exampleConfig 5 0 (1 - 1 / 2 ^ 23))
   \<and> \<not> inBin exampleConfig 2 (pathLengthTarget binary32 exampleConfig 6 0 (1 - 1 / 2 ^ 23))
   \<and> \<not> inBin exampleConfig 2 (pathLengthTarget binary32 exampleConfig 7 0 (1 - 1 / 2 ^ 23))"
  by (simp add: pathLengthTarget_def inBin_def exampleConfig_def binary32_values)

subsection \<open>The pretraining average\<close>

text \<open>
  C10. The luminance floor of the adaptive controller is the luminance of the average of
  the pretraining result divided by the frame count of the real configuration, while the
  pretraining configuration itself has one frame whose width is \<open>Max - Min\<close>.
\<close>

theorem averageLuminance_divided_by_frames:
  assumes "0 < m_frames config"
  shows "averageLuminance weights fakeAverage config
           = getLuminance weights (fakeAverage (fakeConfig config)) / real (m_frames config)
       \<and> m_frames (fakeConfig config) = 1
       \<and> m_decompositionBinWidth (fakeConfig config)
           = m_decompositionMaxBound config - m_decompositionMinBound config"
  by (simp add: averageLuminance_def fakeConfig_def getLuminance_def spectrumDiv_def
        add_divide_distrib split: prod.splits)

theorem averageLuminance_divided_by_frames_witness:
  "averageLuminance (1 / 5, 7 / 10, 1 / 10) (\<lambda>c. (8, 8, 8)) exampleConfig = 2
   \<and> getLuminance (1 / 5, 7 / 10, 1 / 10) (8, 8, 8) = 8
   \<and> m_frames exampleConfig = 4
   \<and> m_frames (fakeConfig exampleConfig) = 1
   \<and> m_decompositionBinWidth (fakeConfig exampleConfig) = 4"
proof -
  have fr: "0 < m_frames exampleConfig" by (simp add: exampleConfig_def)
  have lum: "getLuminance (1 / 5, 7 / 10, 1 / 10) (8, 8, 8) = 8"
    by (simp add: getLuminance_def)
  from averageLuminance_divided_by_frames[OF fr, of "(1 / 5, 7 / 10, 1 / 10)" "\<lambda>c. (8, 8, 8)"]
  show ?thesis using lum by (simp add: exampleConfig_def)
qed

subsection \<open>The adaptive sampling loop\<close>

lemma welford_mean_step:
  fixes r S x :: real
  assumes "r > 0"
  shows "S / r + (x - S / r) / (r + 1) = (S + x) / (r + 1)"
proof -
  have r1: "r + 1 \<noteq> 0" "r \<noteq> 0" using assms by auto
  show ?thesis using r1 by (simp add: divide_simps) (simp add: algebra_simps)
qed

lemma welford_meanSqr_step:
  fixes r S x Q :: real
  assumes "r > 0"
  shows "(Q - S\<^sup>2 / r) + (x - S / r) * (x - (S + x) / (r + 1))
         = (Q + x\<^sup>2) - (S + x)\<^sup>2 / (r + 1)"
proof -
  have r1: "r + 1 \<noteq> 0" "r \<noteq> 0" using assms by auto
  show ?thesis using r1 by (simp add: divide_simps) (simp add: algebra_simps power2_eq_square)
qed

lemma sampleCount_welfordRun: "sampleCount (welfordRun fl lum n) = n"
  by (induction n) (simp_all add: welfordInit_def addSample_def Let_def)

text \<open>Without rounding, Welford's update maintains the mean and the sum of squared deviations.\<close>

lemma mean_welfordRun: "mean (welfordRun (\<lambda>x. x) lum n) = sampleMean lum n"
proof (induction n)
  case 0
  then show ?case by (simp add: welfordInit_def sampleMean_def)
next
  case (Suc n)
  show ?case
  proof (cases "n = 0")
    case True
    then show ?thesis by (simp add: addSample_def Let_def welfordInit_def sampleMean_def)
  next
    case False
    then have n: "real n > 0" by simp
    have "mean (welfordRun (\<lambda>x. x) lum (Suc n))
        = sampleMean lum n + (lum n - sampleMean lum n) / (real n + 1)"
      using Suc by (simp add: addSample_def Let_def sampleCount_welfordRun add.commute)
    also have "\<dots> = ((\<Sum>i<n. lum i) + lum n) / (real n + 1)"
      unfolding sampleMean_def by (rule welford_mean_step[OF n])
    also have "\<dots> = sampleMean lum (Suc n)"
      by (simp add: sampleMean_def add.commute)
    finally show ?thesis .
  qed
qed

lemma sumSqDev_alt:
  "sumSqDev lum n = (\<Sum>i<n. (lum i)\<^sup>2) - (\<Sum>i<n. lum i)\<^sup>2 / real n"
proof (cases "n = 0")
  case True
  then show ?thesis by (simp add: sumSqDev_def)
next
  case False
  then have n: "real n \<noteq> 0" by simp
  let ?m = "sampleMean lum n"
  have "sumSqDev lum n = (\<Sum>i<n. ((lum i)\<^sup>2 - 2 * ?m * lum i) + ?m\<^sup>2)"
    by (simp add: sumSqDev_def power2_diff algebra_simps)
  also have "\<dots> = (\<Sum>i<n. (lum i)\<^sup>2) - 2 * ?m * (\<Sum>i<n. lum i) + real n * ?m\<^sup>2"
    by (simp add: sum.distrib sum_subtractf sum_distrib_left)
  also have "\<dots> = (\<Sum>i<n. (lum i)\<^sup>2) - (\<Sum>i<n. lum i)\<^sup>2 / real n"
    using n by (simp add: sampleMean_def divide_simps power2_eq_square)
  finally show ?thesis .
qed

lemma meanSqr_welfordRun: "meanSqr (welfordRun (\<lambda>x. x) lum n) = sumSqDev lum n"
proof (induction n)
  case 0
  then show ?case by (simp add: welfordInit_def sumSqDev_def)
next
  case (Suc n)
  show ?case
  proof (cases "n = 0")
    case True
    then show ?thesis
      by (simp add: addSample_def Let_def welfordInit_def sumSqDev_def sampleMean_def)
  next
    case False
    then have n: "real n > 0" by simp
    define S where "S = (\<Sum>i<n. lum i)"
    define Q where "Q = (\<Sum>i<n. (lum i)\<^sup>2)"
    define x where "x = lum n"
    have "meanSqr (welfordRun (\<lambda>x. x) lum (Suc n))
        = sumSqDev lum n + (x - sampleMean lum n) * (x - sampleMean lum (Suc n))"
      using Suc mean_welfordRun[of lum n] mean_welfordRun[of lum "Suc n"]
      by (simp add: addSample_def Let_def x_def)
    also have "\<dots> = (Q - S\<^sup>2 / real n) + (x - S / real n) * (x - (S + x) / (real n + 1))"
      by (simp add: sumSqDev_alt sampleMean_def S_def Q_def x_def add.commute)
    also have "\<dots> = (Q + x\<^sup>2) - (S + x)\<^sup>2 / (real n + 1)"
      by (rule welford_meanSqr_step[OF n])
    also have "\<dots> = sumSqDev lum (Suc n)"
      by (simp add: sumSqDev_alt S_def Q_def x_def add.commute)
    finally show ?thesis .
  qed
qed

text \<open>The test of the loop is the exit condition on the running statistics.\<close>

lemma breakTest_exitCondition:
  "breakTest fl config spb avgLum w = exitCondition fl config spb avgLum w"
proof (cases "2 \<le> sampleCount w")
  case True
  then have "sampleCount w - 1 \<noteq> 0" by simp
  then show ?thesis
    using True
    by (auto simp add: breakTest_def exitCondition_def converged_def Let_def not_less)
next
  case False
  then have "sampleCount w - 1 = 0" by simp
  then show ?thesis
    using False by (auto simp add: breakTest_def exitCondition_def converged_def)
qed

lemma adaptiveLoop_step:
  assumes "\<not> stop m"
  shows "adaptiveLoop fl config spb avgLum stop lum (welfordRun fl lum m)
         = (if exitCondition fl config spb avgLum (welfordRun fl lum (Suc m))
            then Some (welfordRun fl lum (Suc m))
            else adaptiveLoop fl config spb avgLum stop lum (welfordRun fl lum (Suc m)))"
  using assms
  by (subst adaptiveLoop.simps)
     (simp add: sampleCount_welfordRun Let_def breakTest_exitCondition)

lemma adaptiveLoop_reaches:
  assumes ns: "\<forall>i. \<not> stop i"
    and ex: "exitCondition fl config spb avgLum (welfordRun fl lum n)"
  shows "m < n
    \<Longrightarrow> \<forall>k. m < k \<and> k < n \<longrightarrow> \<not> exitCondition fl config spb avgLum (welfordRun fl lum k)
    \<Longrightarrow> adaptiveLoop fl config spb avgLum stop lum (welfordRun fl lum m)
          = Some (welfordRun fl lum n)"
proof (induction "n - m" arbitrary: m)
  case 0
  then show ?case by simp
next
  case (Suc d)
  show ?case
  proof (cases "Suc m = n")
    case True
    then show ?thesis using ns ex by (simp add: adaptiveLoop_step)
  next
    case False
    then have lt: "Suc m < n" using Suc.prems by simp
    then have "\<not> exitCondition fl config spb avgLum (welfordRun fl lum (Suc m))"
      using Suc.prems by blast
    moreover have "adaptiveLoop fl config spb avgLum stop lum (welfordRun fl lum (Suc m))
        = Some (welfordRun fl lum n)"
      using Suc.hyps Suc.prems lt by (intro Suc.hyps(1)) auto
    ultimately show ?thesis using ns by (simp add: adaptiveLoop_step)
  qed
qed

lemma adaptiveLoop_returns:
  assumes ret: "adaptiveLoop fl config spb avgLum stop lum w = Some y"
    and ns: "\<forall>i. \<not> stop i"
    and w: "w = welfordRun fl lum m"
  shows "\<exists>n>m. y = welfordRun fl lum n \<and> exitCondition fl config spb avgLum (welfordRun fl lum n)
              \<and> (\<forall>k. m < k \<and> k < n
                    \<longrightarrow> \<not> exitCondition fl config spb avgLum (welfordRun fl lum k))"
proof -
  define P where "P = (\<lambda>(fl::Float \<Rightarrow> Float) (config::BDPTConfiguration) spb avgLum
      (stop::nat \<Rightarrow> bool) lum w y.
      (\<forall>i. \<not> stop i) \<longrightarrow> (\<forall>m. w = welfordRun fl lum m \<longrightarrow>
           (\<exists>n>m. y = welfordRun fl lum n
              \<and> exitCondition fl config spb avgLum (welfordRun fl lum n)
              \<and> (\<forall>k. m < k \<and> k < n
                    \<longrightarrow> \<not> exitCondition fl config spb avgLum (welfordRun fl lum k)))))"
  have "P fl config spb avgLum stop lum w y"
  proof (rule adaptiveLoop.raw_induct[where P = P, OF _ ret])
    fix loop f c s a st l w0 y0
    assume IH: "\<And>f c s a st l w0 y0. loop f c s a st l w0 = Some y0 \<Longrightarrow> P f c s a st l w0 y0"
      and body: "(if st (sampleCount w0) then Some w0
          else let w' = addSample f (l (sampleCount w0)) w0
               in if breakTest f c s a w' then Some w' else loop f c s a st l w') = Some y0"
    show "P f c s a st l w0 y0"
      unfolding P_def
    proof (intro impI allI)
      fix m
      assume ns: "\<forall>i. \<not> st i" and w: "w0 = welfordRun f l m"
      have next_w: "addSample f (l (sampleCount w0)) w0 = welfordRun f l (Suc m)"
        by (simp add: w sampleCount_welfordRun)
      from body ns
      have "(if breakTest f c s a (addSample f (l (sampleCount w0)) w0)
             then Some (addSample f (l (sampleCount w0)) w0)
             else loop f c s a st l (addSample f (l (sampleCount w0)) w0)) = Some y0"
        by (simp add: Let_def)
      then have body': "(if exitCondition f c s a (welfordRun f l (Suc m))
             then Some (welfordRun f l (Suc m))
             else loop f c s a st l (welfordRun f l (Suc m))) = Some y0"
        unfolding next_w breakTest_exitCondition .
      show "\<exists>n>m. y0 = welfordRun f l n \<and> exitCondition f c s a (welfordRun f l n)
              \<and> (\<forall>k. m < k \<and> k < n \<longrightarrow> \<not> exitCondition f c s a (welfordRun f l k))"
      proof (cases "exitCondition f c s a (welfordRun f l (Suc m))")
        case True
        then have "y0 = welfordRun f l (Suc m)"
          using body' by simp
        then show ?thesis using True by (intro exI[of _ "Suc m"]) auto
      next
        case False
        then have "loop f c s a st l (welfordRun f l (Suc m)) = Some y0"
          using body' by simp
        from IH[OF this] ns
        obtain n where n: "n > Suc m" "y0 = welfordRun f l n"
          "exitCondition f c s a (welfordRun f l n)"
          "\<forall>k. Suc m < k \<and> k < n \<longrightarrow> \<not> exitCondition f c s a (welfordRun f l k)"
          unfolding P_def by blast
        have "\<forall>k. m < k \<and> k < n \<longrightarrow> \<not> exitCondition f c s a (welfordRun f l k)"
        proof (intro allI impI)
          fix k assume "m < k \<and> k < n"
          then have "k = Suc m \<or> (Suc m < k \<and> k < n)" by auto
          then show "\<not> exitCondition f c s a (welfordRun f l k)" using False n(4) by auto
        qed
        then show ?thesis using n by (intro exI[of _ n]) auto
      qed
    qed
  qed
  then show ?thesis using ns w unfolding P_def by blast
qed

text \<open>With a non-negative cap factor the loop always returns.\<close>

lemma adaptiveLoop_capped_returns:
  assumes ns: "\<forall>i. \<not> stop i" and cap: "0 \<le> m_adapMaxSampleFactor config"
  shows "\<exists>w. adaptiveLoop fl config samplesPerBin averageLum stop luminance welfordInit = Some w
             \<and> int (sampleCount w)
                 \<le> max 1 ((m_adapMaxSampleFactor config * int samplesPerBin) mod 2 ^ 64)"
proof -
  let ?E = "\<lambda>n. exitCondition fl config samplesPerBin averageLum (welfordRun fl luminance n)"
  define c where
    "c = max 1 (nat ((m_adapMaxSampleFactor config * int samplesPerBin) mod 2 ^ 64))"
  have ec: "?E c"
    using cap by (auto simp add: exitCondition_def c_def sampleCount_welfordRun)
  moreover have c0: "0 < c" by (simp add: c_def)
  ultimately have "\<exists>n>0. ?E n" by blast
  then obtain n where n: "0 < n \<and> ?E n"
    and least: "\<forall>k. k < n \<longrightarrow> \<not> (0 < k \<and> ?E k)"
    using exists_least_iff[of "\<lambda>n. 0 < n \<and> ?E n"]
    by blast
  have nc: "n \<le> c"
    using least ec c0 by (meson not_le)
  have "adaptiveLoop fl config samplesPerBin averageLum stop luminance (welfordRun fl luminance 0)
          = Some (welfordRun fl luminance n)"
    using n least by (intro adaptiveLoop_reaches[OF ns]) auto
  moreover have "int (sampleCount (welfordRun fl luminance n))
      \<le> max 1 ((m_adapMaxSampleFactor config * int samplesPerBin) mod 2 ^ 64)"
    using nc by (simp add: sampleCount_welfordRun c_def)
  ultimately show ?thesis by auto
qed

text \<open>The running statistics of two samples of luminance 1 in single precision.\<close>

lemma welfordRun_unit_1:
  "welfordRun binary32 unitLuminance (Suc 0) = \<lparr> mean = 1, meanSqr = 0, sampleCount = 1 \<rparr>"
  by (simp add: addSample_def welfordInit_def unitLuminance_def binary32_values)

lemma welfordRun_unit_2:
  "welfordRun binary32 unitLuminance 2 = \<lparr> mean = 1, meanSqr = 0, sampleCount = 2 \<rparr>"
proof -
  have "welfordRun binary32 unitLuminance (Suc (Suc 0))
      = \<lparr> mean = 1, meanSqr = 0, sampleCount = 2 \<rparr>"
    unfolding welfordRun.simps(2)[of binary32 unitLuminance "Suc 0"] welfordRun_unit_1
    by (simp add: addSample_def unitLuminance_def binary32_values)
  then show ?thesis by (simp add: numeral_2_eq_2)
qed

lemma relative_error_nonneg:
  assumes "0 \<le> e"
  shows "0 \<le> binary32 (e * max 1 x)"
proof -
  have "0 \<le> e * max 1 x" using assms by (intro mult_nonneg_nonneg) simp_all
  then show ?thesis by (rule binary32_nonneg)
qed

lemma exit_unit_2:
  assumes "0 \<le> m_adapMaxError config"
  shows "exitCondition binary32 config 2 averageLum (welfordRun binary32 unitLuminance 2)"
  unfolding welfordRun_unit_2 exitCondition_def
  by (simp add: binary32_values relative_error_nonneg[OF assms])

lemma no_exit_unit_1:
  assumes "m_adapMaxSampleFactor config < 0 \<or> 1 < m_adapMaxSampleFactor config"
    and "m_adapMaxSampleFactor config < 2 ^ 62"
  shows "\<not> exitCondition binary32 config 2 averageLum (welfordRun binary32 unitLuminance (Suc 0))"
  unfolding welfordRun_unit_1 exitCondition_def
  using assms by auto

text \<open>
  The product of the cap wraps: for factor \<open>2^30\<close> and \<open>2^34\<close> samples per bin it is \<open>2^64\<close>,
  which is 0 in \<^verbatim>\<open>size_t\<close>, and the loop breaks after its first sample.
\<close>

lemma adaptiveLoop_cap_wraps:
  "adaptiveLoop binary32 (exampleConfig\<lparr> m_adapMaxSampleFactor := 2 ^ 30 \<rparr>) (2 ^ 34) 1
       neverStop unitLuminance welfordInit
     = Some \<lparr> mean = 1, meanSqr = 0, sampleCount = 1 \<rparr>"
proof -
  have ns: "\<forall>i. \<not> neverStop i" by (simp add: neverStop_def)
  have e1: "exitCondition binary32 (exampleConfig\<lparr> m_adapMaxSampleFactor := 2 ^ 30 \<rparr>) (2 ^ 34) 1
              (welfordRun binary32 unitLuminance (Suc 0))"
    unfolding welfordRun_unit_1 exitCondition_def by simp
  have "adaptiveLoop binary32 (exampleConfig\<lparr> m_adapMaxSampleFactor := 2 ^ 30 \<rparr>) (2 ^ 34) 1
          neverStop unitLuminance (welfordRun binary32 unitLuminance 0)
      = Some (welfordRun binary32 unitLuminance (Suc 0))"
    by (intro adaptiveLoop_reaches[OF ns e1]) simp_all
  then show ?thesis unfolding welfordRun_unit_1 by simp
qed

text \<open>
  C2 (amended). As long as the \<^verbatim>\<open>stop\<close> flag is not set, the adaptive loop started from the
  empty statistics returns \<open>w\<close> exactly when, for some \<open>n > 0\<close>, \<open>w\<close> is the statistics that
  Welford's update yields for the first \<open>n\<close> sample luminances and \<open>n\<close> is the first sample
  count at which the exit condition holds: the factor is non-negative and \<open>n\<close> is at least
  \<open>adapMaxSampleFactor * samplesPerBin\<close> taken modulo \<open>2^64\<close>, or \<open>n \<ge> samplesPerBin\<close>, \<open>n \<ge> 2\<close>
  and \<open>sqrt ((M2 / (n - 1)) / n) * adapQuantile \<le> adapMaxError * max (mean, averageLuminance * 0.01f)\<close>
  with every operation rounded to \<^verbatim>\<open>Float\<close>. The statistics count the samples, and without
  rounding they are the mean of the luminances and the sum of their squared deviations.
\<close>

theorem adaptiveLoop_exit:
  assumes ns: "\<forall>i. \<not> stop i"
  shows "(adaptiveLoop fl config samplesPerBin averageLum stop luminance welfordInit = Some w
     \<longleftrightarrow> (\<exists>n>0. w = welfordRun fl luminance n
            \<and> exitCondition fl config samplesPerBin averageLum (welfordRun fl luminance n)
            \<and> (\<forall>k. 0 < k \<and> k < n \<longrightarrow>
                  \<not> exitCondition fl config samplesPerBin averageLum
                      (welfordRun fl luminance k))))
   \<and> sampleCount (welfordRun fl luminance m) = m
   \<and> mean (welfordRun (\<lambda>x. x) luminance m) = sampleMean luminance m
   \<and> meanSqr (welfordRun (\<lambda>x. x) luminance m) = sumSqDev luminance m"
proof (intro conjI iffI)
  assume "adaptiveLoop fl config samplesPerBin averageLum stop luminance welfordInit = Some w"
  from adaptiveLoop_returns[OF this ns, of 0]
  show "\<exists>n>0. w = welfordRun fl luminance n
          \<and> exitCondition fl config samplesPerBin averageLum (welfordRun fl luminance n)
          \<and> (\<forall>k. 0 < k \<and> k < n \<longrightarrow>
                \<not> exitCondition fl config samplesPerBin averageLum (welfordRun fl luminance k))"
    by simp
next
  assume "\<exists>n>0. w = welfordRun fl luminance n
          \<and> exitCondition fl config samplesPerBin averageLum (welfordRun fl luminance n)
          \<and> (\<forall>k. 0 < k \<and> k < n \<longrightarrow>
                \<not> exitCondition fl config samplesPerBin averageLum (welfordRun fl luminance k))"
  then obtain n where n: "0 < n" "w = welfordRun fl luminance n"
      "exitCondition fl config samplesPerBin averageLum (welfordRun fl luminance n)"
      "\<forall>k. 0 < k \<and> k < n \<longrightarrow>
          \<not> exitCondition fl config samplesPerBin averageLum (welfordRun fl luminance k)"
    by blast
  from adaptiveLoop_reaches[OF ns n(3) n(1) n(4)]
  show "adaptiveLoop fl config samplesPerBin averageLum stop luminance welfordInit = Some w"
    using n(2) by simp
next
  show "sampleCount (welfordRun fl luminance m) = m" by (rule sampleCount_welfordRun)
next
  show "mean (welfordRun (\<lambda>x. x) luminance m) = sampleMean luminance m"
    by (rule mean_welfordRun)
next
  show "meanSqr (welfordRun (\<lambda>x. x) luminance m) = sumSqDev luminance m"
    by (rule meanSqr_welfordRun)
qed

theorem adaptiveLoop_exit_witness:
  "adaptiveLoop binary32 exampleConfig 2 1 neverStop unitLuminance welfordInit
     = Some \<lparr> mean = 1, meanSqr = 0, sampleCount = 2 \<rparr>
   \<and> sampleCount (welfordRun binary32 unitLuminance 2) = 2
   \<and> mean (welfordRun (\<lambda>x. x) unitLuminance 2) = sampleMean unitLuminance 2
   \<and> meanSqr (welfordRun (\<lambda>x. x) unitLuminance 2) = sumSqDev unitLuminance 2"
proof -
  have ns: "\<forall>i. \<not> neverStop i" by (simp add: neverStop_def)
  have e2: "exitCondition binary32 exampleConfig 2 1 (welfordRun binary32 unitLuminance 2)"
    by (rule exit_unit_2) (simp add: exampleConfig_def)
  have e1: "\<not> exitCondition binary32 exampleConfig 2 1 (welfordRun binary32 unitLuminance k)"
    if "0 < k \<and> k < 2" for k
  proof -
    from that have k: "k = Suc 0" by simp
    show ?thesis
      unfolding k by (rule no_exit_unit_1) (simp_all add: exampleConfig_def)
  qed
  have "\<exists>n>0. \<lparr> mean = 1, meanSqr = 0, sampleCount = 2 \<rparr> = welfordRun binary32 unitLuminance n
          \<and> exitCondition binary32 exampleConfig 2 1 (welfordRun binary32 unitLuminance n)
          \<and> (\<forall>k. 0 < k \<and> k < n \<longrightarrow>
                \<not> exitCondition binary32 exampleConfig 2 1 (welfordRun binary32 unitLuminance k))"
    using e2 e1 welfordRun_unit_2 by (intro exI[of _ 2]) simp
  then show ?thesis
    using adaptiveLoop_exit[OF ns, where fl = binary32 and config = exampleConfig
        and samplesPerBin = 2 and averageLum = 1 and luminance = unitLuminance
        and w = "\<lparr> mean = 1, meanSqr = 0, sampleCount = 2 \<rparr>" and m = 2]
    by blast
qed

text \<open>
  C2 as the specification words it fails for a negative \<^verbatim>\<open>adapMaxSampleFactor\<close>: with factor
  \<open>-1\<close>, two samples per bin and samples of luminance 1, the specification's hard-cap
  condition \<open>sampleCount \<ge> adapMaxSampleFactor * samplesPerBin\<close> already holds after the
  first sample, yet the loop takes a second sample and only then returns.
\<close>

theorem adaptiveLoop_negative_factor_counterexample:
  "specExitCondition negativeFactorConfig 2 1 unitLuminance 1
   \<and> adaptiveLoop binary32 negativeFactorConfig 2 1 neverStop unitLuminance welfordInit
       = Some \<lparr> mean = 1, meanSqr = 0, sampleCount = 2 \<rparr>"
proof -
  have ns: "\<forall>i. \<not> neverStop i" by (simp add: neverStop_def)
  have e2: "exitCondition binary32 negativeFactorConfig 2 1
              (welfordRun binary32 unitLuminance 2)"
    by (rule exit_unit_2) (simp add: negativeFactorConfig_def exampleConfig_def)
  have e1: "\<forall>k. 0 < k \<and> k < 2
      \<longrightarrow> \<not> exitCondition binary32 negativeFactorConfig 2 1
            (welfordRun binary32 unitLuminance k)"
  proof (intro allI impI)
    fix k :: nat
    assume "0 < k \<and> k < 2"
    then have k: "k = Suc 0" by simp
    show "\<not> exitCondition binary32 negativeFactorConfig 2 1
            (welfordRun binary32 unitLuminance k)"
      unfolding k
      by (rule no_exit_unit_1) (simp_all add: negativeFactorConfig_def exampleConfig_def)
  qed
  have "adaptiveLoop binary32 negativeFactorConfig 2 1 neverStop unitLuminance
          (welfordRun binary32 unitLuminance 0)
      = Some (welfordRun binary32 unitLuminance 2)"
    using e1 by (intro adaptiveLoop_reaches[OF ns e2]) simp_all
  moreover have "specExitCondition negativeFactorConfig 2 1 unitLuminance 1"
    by (simp add: specExitCondition_def negativeFactorConfig_def exampleConfig_def)
  ultimately show ?thesis by (simp add: welfordRun_unit_2)
qed

subsection \<open>Snapshot and restore\<close>

lemma footprint_border0: "footprint 0 = [(0, 0)]"
  by (simp add: footprint_def)

lemma adaptiveBin_border0:
  "adaptiveBin sizeX channels hx hy j 0 samplesPerBin n sampling target =
     (let a = (hy * sizeX + hx) * channels + j;
          factor = real samplesPerBin / real n
      in (sampling target)(a := target a * (1 - factor) + sampling target a * factor))"
  by (simp add: adaptiveBin_def takeSnapshot_def restoreSnapshot_def restoreStep_def
        footprint_border0 footprintAddr_def Let_def)

text \<open>
  C3. The claim: for time bin \<open>j\<close> the three channels of every pixel of the footprint are
  saved and afterwards blended with factor \<open>samplesPerBin / sampleCount\<close>. The code saves
  and blends the single float at channel offset \<open>j\<close> of each pixel. With two frames (eight
  channels per pixel: bin 0 in channels 0--2, bin 1 in channels 3--5, then weight and
  alpha), a footprint of one pixel, a black bitmap, time bin \<open>j = 1\<close>, one sample per bin
  and two samples taken that each add 2 to every channel: the snapshot holds one float,
  channel 1 (the green channel of bin 0) is blended to \<open>0 * (1/2) + 4 * (1/2) = 2\<close>, and the
  three channels 3, 4, 5 of bin 1 keep the unblended value 4.
\<close>

theorem adaptiveBin_blends_channel_j_only:
  "length (takeSnapshot 1 8 0 0 1 0 blackBitmap) = 1
   \<and> adaptiveBin 1 8 0 0 1 0 1 2 addFour blackBitmap 1 = 2
   \<and> adaptiveBin 1 8 0 0 1 0 1 2 addFour blackBitmap 3 = 4
   \<and> adaptiveBin 1 8 0 0 1 0 1 2 addFour blackBitmap 4 = 4
   \<and> adaptiveBin 1 8 0 0 1 0 1 2 addFour blackBitmap 5 = 4"
  by (simp add: adaptiveBin_border0 takeSnapshot_def footprint_border0 addFour_def
        blackBitmap_def)

subsection \<open>Binning\<close>









subsection \<open>Bounce mode\<close>

lemma pathlengthEntry_bounce: "pathlengthEntry EBounce len n = real (n - 1)"
  by (induction EBounce len n rule: pathlengthEntry.induct) auto

lemma pathlengths_nth:
  "dt \<noteq> ESteadyState \<Longrightarrow> n < N \<Longrightarrow> pathlengths dt len N ! n = pathlengthEntry dt len n"
  by (simp add: pathlengths_def)

lemma chooseDecomposition_other:
  "cur \<noteq> ETransientEllipse \<Longrightarrow> chooseDecomposition wr c cur x = (cur, 1)"
  by (simp add: chooseDecomposition_def)

lemma connectEndpoints_bounce:
  assumes dt: "m_decompositionType wr = EBounce"
    and s: "1 \<le> s" "s < int nE" and t: "1 \<le> t" "t < int nS"
    and r: "connectEndpoints config wr (pathlengths EBounce eLen nE) (pathlengths EBounce sLen nS)
              target s t c = Inr (Proceed p)"
  shows "p_pathLength p = real_of_int (s + t - 1) \<and> p_type p = EBounce"
proof -
  have es: "pathlengths EBounce eLen nE ! nat s = real_of_int (s - 1)"
    using s by (simp add: pathlengths_nth pathlengthEntry_bounce of_nat_diff)
  have st: "pathlengths EBounce sLen nS ! nat t = real_of_int (t - 1)"
    using t by (simp add: pathlengths_nth pathlengthEntry_bounce of_nat_diff)
  show ?thesis
    using r dt es st
    by (auto simp add: connectEndpoints_def directEmitter_def directSensor_def
          generalConnect_def chooseDecomposition_other Let_def split: if_splits)
qed

lemma connectEndpoints_no_error:
  assumes "m_decompositionType wr \<noteq> ETransientEllipse"
  shows "connectEndpoints config wr ePl sPl target s t c \<noteq> Inl e"
  using assms
  by (auto simp add: connectEndpoints_def directEmitter_def directSensor_def
        generalConnect_def chooseDecomposition_other Let_def split: if_splits)

lemma connectEndpoints_no_insert:
  assumes "m_decompositionType wr \<noteq> ETransientEllipse"
  shows "connectEndpoints config wr ePl sPl target s t c \<noteq> Inr (EllipticInsert a b)"
  using assms
  by (auto simp add: connectEndpoints_def directEmitter_def directSensor_def
        generalConnect_def chooseDecomposition_other Let_def split: if_splits)

text \<open>Three nested tests that all lead to the same result are one test.\<close>

lemma skip_cascade:
  "(if F then Inr a else Inr (if Z1 \<or> Z2 \<or> Z3 then a else if G then a else y))
   = Inr (if F \<or> Z1 \<or> Z2 \<or> Z3 \<or> G then a else y)"
  by auto

text \<open>In bounce mode the commit of lines 756--791 needs no modulation test.\<close>

lemma accumulate_bounce:
  assumes dt: "m_decompositionType wr = EBounce" and t: "1 \<le> t"
  shows "accumulate fl wr EBounce t l v w corrWeight samplePos acc
     = (if l < m_decompositionMinBound wr \<or> m_decompositionMaxBound wr < l \<or> isZero v
           \<or> m_frames wr \<le> binIndexOf fl wr l
        then acc
        else if 2 \<le> t then
          acc\<lparr> sampleDecompositionValue :=
                 addToBin fl (binIndexOf fl wr l) v w (sampleDecompositionValue acc) \<rparr>
        else
          acc\<lparr> lightSamples := lightSamples acc @
                 [(samplePos, ChannelSample
                     (addToBin fl (binIndexOf fl wr l) v w (l_sampleDecompositionValue acc)))],
               l_sampleDecompositionValue :=
                 clearBin (binIndexOf fl wr l)
                   (addToBin fl (binIndexOf fl wr l) v w (l_sampleDecompositionValue acc)) \<rparr>)"
proof -
  have steady: "steadySample wr EBounce t' v' w' samplePos a = a" for t' v' w' a
    using dt by (simp add: steadySample_def)
  consider "2 \<le> t" | "t = 1" using t by linarith
  then show ?thesis
  proof cases
    case 1
    then show ?thesis
      by (auto simp add: accumulate_def binSample_def steady Let_def not_le not_less)
  next
    case 2
    then show ?thesis
      by (auto simp add: accumulate_def binSample_def steady Let_def not_le not_less)
  qed
qed

text \<open>
  C7. In bounce mode, for every pair \<open>(s, t)\<close> with \<open>s \<ge> 1\<close> and \<open>t \<ge> 1\<close> inside the two
  subpaths, whatever the scene and the sampler return. The endpoints stage raises no
  error and inserts no vertex; when it skips, the iteration leaves the accumulators as
  they were; and when it hands a sample over, be it from the direct-sampling branches
  at \<open>s = 1\<close> or \<open>t = 1\<close> or from the general one, its type is \<^verbatim>\<open>EBounce\<close>, its path length is
  \<open>s + t - 1\<close>, and the iteration returns the accumulators with the sample added into the
  bin of the path length \<open>s + t - 1\<close>, of the pixel accumulator for \<open>t \<ge> 2\<close> and of one
  light sample for \<open>t = 1\<close>, unless the pair is not the forced one, the value is zero, the
  connection fails, the sample position is not found, or the range guard refuses
  \<open>s + t - 1\<close>.
\<close>

theorem bounce_pathLength:
  assumes dt: "m_decompositionType wr = EBounce"
    and s: "1 \<le> s" "s < int nE" and t: "1 \<le> t" "t < int nS"
  shows "connectEndpoints config wr (pathlengths EBounce eLen nE) (pathlengths EBounce sLen nS)
           target s t (ext s t) \<noteq> Inl e
     \<and> connectEndpoints config wr (pathlengths EBounce eLen nE) (pathlengths EBounce sLen nS)
           target s t (ext s t) \<noteq> Inr (EllipticInsert a b)
     \<and> (connectEndpoints config wr (pathlengths EBounce eLen nE) (pathlengths EBounce sLen nS)
           target s t (ext s t) = Inr Skip \<longrightarrow>
         connection fl config wr isEmitterLaser (pathlengths EBounce eLen nE)
           (pathlengths EBounce sLen nS) target initialSamplePos ext s t acc = Inr acc)
     \<and> (connectEndpoints config wr (pathlengths EBounce eLen nE) (pathlengths EBounce sLen nS)
           target s t (ext s t) = Inr (Proceed p) \<longrightarrow>
         p_type p = EBounce \<and> p_pathLength p = real_of_int (s + t - 1)
         \<and> connection fl config wr isEmitterLaser (pathlengths EBounce eLen nE)
              (pathlengths EBounce sLen nS) target initialSamplePos ext s t acc
            = Inr (let l = real_of_int (s + t - 1);
                       k = binIndexOf fl wr l;
                       v = specMul (p_value p) (evalCached (ext s t));
                       w = miWeightResult (ext s t);
                       samplePos =
                         (if vtIsSensorSample (ext s t)
                          then (case getSamplePosition (ext s t) of
                                  Some q \<Rightarrow> q | None \<Rightarrow> initialSamplePos)
                          else initialSamplePos)
                   in if (m_forceBounces wr \<and> (s \<noteq> m_sBounces wr \<or> t \<noteq> m_tBounces wr))
                         \<or> isZero (p_value p) \<or> \<not> pathConnectOk (ext s t)
                         \<or> (vtIsSensorSample (ext s t) \<and> getSamplePosition (ext s t) = None)
                         \<or> l < m_decompositionMinBound wr \<or> m_decompositionMaxBound wr < l
                         \<or> isZero v \<or> m_frames wr \<le> k
                      then acc
                      else if 2 \<le> t then
                        acc\<lparr> sampleDecompositionValue :=
                               addToBin fl k v w (sampleDecompositionValue acc) \<rparr>
                      else
                        acc\<lparr> lightSamples := lightSamples acc @
                               [(samplePos, ChannelSample
                                   (addToBin fl k v w (l_sampleDecompositionValue acc)))],
                             l_sampleDecompositionValue :=
                               clearBin k
                                 (addToBin fl k v w (l_sampleDecompositionValue acc)) \<rparr>))"
proof (intro conjI impI)
  let ?ce = "connectEndpoints config wr (pathlengths EBounce eLen nE)
               (pathlengths EBounce sLen nS) target s t (ext s t)"
  have ne: "m_decompositionType wr \<noteq> ETransientEllipse" using dt by simp
  show "?ce \<noteq> Inl e" by (rule connectEndpoints_no_error[OF ne])
  show "?ce \<noteq> Inr (EllipticInsert a b)" by (rule connectEndpoints_no_insert[OF ne])
  have head: "connection fl config wr isEmitterLaser (pathlengths EBounce eLen nE)
        (pathlengths EBounce sLen nS) target initialSamplePos ext s t acc
      = (if m_forceBounces wr \<and> (s \<noteq> m_sBounces wr \<or> t \<noteq> m_tBounces wr) then Inr acc
         else case ?ce of
           Inl e \<Rightarrow> Inl e
         | Inr Skip \<Rightarrow> Inr acc
         | Inr (EllipticInsert pathLengthRemaining tempPathLength) \<Rightarrow>
             Inr (ellipticCommit fl wr t initialSamplePos pathLengthRemaining tempPathLength
                    (ext s t) acc)
         | Inr (Proceed p) \<Rightarrow> Inr (connectAndCommit fl wr t initialSamplePos p (ext s t) acc))"
    using dt s(1) t(1) by (simp add: connection_def)
  {
    assume "?ce = Inr Skip"
    then show "connection fl config wr isEmitterLaser (pathlengths EBounce eLen nE)
        (pathlengths EBounce sLen nS) target initialSamplePos ext s t acc = Inr acc"
      by (simp add: head)
  }
  assume pr: "?ce = Inr (Proceed p)"
  from connectEndpoints_bounce[OF dt s t pr]
  show ty: "p_type p = EBounce" and len: "p_pathLength p = real_of_int (s + t - 1)"
    by simp_all
  let ?c = "ext s t"
  let ?l = "real_of_int (s + t - 1)"
  let ?k = "binIndexOf fl wr ?l"
  let ?v = "specMul (p_value p) (evalCached ?c)"
  let ?w = "miWeightResult ?c"
  have conn: "connection fl config wr isEmitterLaser (pathlengths EBounce eLen nE)
        (pathlengths EBounce sLen nS) target initialSamplePos ext s t acc
      = (if m_forceBounces wr \<and> (s \<noteq> m_sBounces wr \<or> t \<noteq> m_tBounces wr) then Inr acc
         else Inr (connectAndCommit fl wr t initialSamplePos p ?c acc))"
    unfolding head pr by auto
  have cc: "connectAndCommit fl wr t initialSamplePos p ?c acc
      = (if isZero (p_value p) \<or> \<not> pathConnectOk ?c
            \<or> (vtIsSensorSample ?c \<and> getSamplePosition ?c = None)
         then acc
         else accumulate fl wr EBounce t ?l ?v ?w (p_corrWeight p)
                (if vtIsSensorSample ?c
                 then (case getSamplePosition ?c of Some q \<Rightarrow> q | None \<Rightarrow> initialSamplePos)
                 else initialSamplePos) acc)"
    using ty len
    by (cases "getSamplePosition ?c") (simp_all add: connectAndCommit_def Let_def)
  show "connection fl config wr isEmitterLaser (pathlengths EBounce eLen nE)
              (pathlengths EBounce sLen nS) target initialSamplePos ext s t acc
            = Inr (let l = real_of_int (s + t - 1);
                       k = binIndexOf fl wr l;
                       v = specMul (p_value p) (evalCached (ext s t));
                       w = miWeightResult (ext s t);
                       samplePos =
                         (if vtIsSensorSample (ext s t)
                          then (case getSamplePosition (ext s t) of
                                  Some q \<Rightarrow> q | None \<Rightarrow> initialSamplePos)
                          else initialSamplePos)
                   in if (m_forceBounces wr \<and> (s \<noteq> m_sBounces wr \<or> t \<noteq> m_tBounces wr))
                         \<or> isZero (p_value p) \<or> \<not> pathConnectOk (ext s t)
                         \<or> (vtIsSensorSample (ext s t) \<and> getSamplePosition (ext s t) = None)
                         \<or> l < m_decompositionMinBound wr \<or> m_decompositionMaxBound wr < l
                         \<or> isZero v \<or> m_frames wr \<le> k
                      then acc
                      else if 2 \<le> t then
                        acc\<lparr> sampleDecompositionValue :=
                               addToBin fl k v w (sampleDecompositionValue acc) \<rparr>
                      else
                        acc\<lparr> lightSamples := lightSamples acc @
                               [(samplePos, ChannelSample
                                   (addToBin fl k v w (l_sampleDecompositionValue acc)))],
                             l_sampleDecompositionValue :=
                               clearBin k
                                 (addToBin fl k v w (l_sampleDecompositionValue acc)) \<rparr>)"
    unfolding conn cc accumulate_bounce[OF dt t(1)] Let_def
    by (rule skip_cascade)
qed

theorem bounce_pathLength_witness:
  "connectEndpoints exampleConfig bounceResult (pathlengths EBounce unitEdgeLength 2)
       (pathlengths EBounce unitEdgeLength 3) 3 1 2 (plainConnections 1 2)
     = Inr (Proceed \<lparr> p_type = EBounce, p_pathLength = 2, p_value = (1, 1, 1),
                       p_sampleDirect = True, p_corrWeight = 1 \<rparr>)
   \<and> real_of_int (1 + 2 - 1) = 2
   \<and> binIndexOf binary32 bounceResult 2 = 2
   \<and> connection binary32 exampleConfig bounceResult False (pathlengths EBounce unitEdgeLength 2)
         (pathlengths EBounce unitEdgeLength 3) 3 (0, 0) plainConnections 1 2
         (initialAccum bounceResult)
       = Inr ((initialAccum bounceResult)
                \<lparr> sampleDecompositionValue :=
                    addToBin binary32 2 (1, 1, 1) 1
                      (sampleDecompositionValue (initialAccum bounceResult)) \<rparr>)
   \<and> sampleDecompositionValue
        ((initialAccum bounceResult)
           \<lparr> sampleDecompositionValue :=
               addToBin binary32 2 (1, 1, 1) 1
                 (sampleDecompositionValue (initialAccum bounceResult)) \<rparr>) 6 = 1"
proof -
  let ?p = "\<lparr> p_type = EBounce, p_pathLength = 2, p_value = (1, 1, 1),
              p_sampleDirect = True, p_corrWeight = 1 \<rparr>"
  have dt: "m_decompositionType bounceResult = EBounce"
    by (simp add: bounceResult_def)
  have s: "(1::int) \<le> 1" "(1::int) < int 2" and t: "(1::int) \<le> 2" "(2::int) < int 3"
    by simp_all
  have pr: "connectEndpoints exampleConfig bounceResult (pathlengths EBounce unitEdgeLength 2)
       (pathlengths EBounce unitEdgeLength 3) 3 1 2 (plainConnections 1 2) = Inr (Proceed ?p)"
    by (simp add: connectEndpoints_def directEmitter_def exampleConfig_def bounceResult_def
          transientResult_def plainConnections_def plainConnection_def specMul_def isZero_def
          pathlengths_nth pathlengthEntry_bounce Let_def)
  have k: "binIndexOf binary32 bounceResult 2 = 2"
    by (simp add: binIndexOf_def bounceResult_def transientResult_def binary32_values)
  have f: "m_forceBounces bounceResult = False" "m_decompositionMinBound bounceResult = 0"
      "m_decompositionMaxBound bounceResult = 4" "m_frames bounceResult = 4"
    by (simp_all add: bounceResult_def transientResult_def)
  note step = bounce_pathLength[OF dt s t, where config = exampleConfig
      and eLen = unitEdgeLength and sLen = unitEdgeLength and target = 3
      and ext = plainConnections and p = ?p and fl = binary32 and isEmitterLaser = False
      and initialSamplePos = "(0, 0)" and acc = "initialAccum bounceResult",
      THEN conjunct2, THEN conjunct2, THEN conjunct2, THEN mp, OF pr,
      THEN conjunct2, THEN conjunct2]
  have run: "connection binary32 exampleConfig bounceResult False
         (pathlengths EBounce unitEdgeLength 2) (pathlengths EBounce unitEdgeLength 3) 3 (0, 0)
         plainConnections 1 2 (initialAccum bounceResult)
       = Inr ((initialAccum bounceResult)
                \<lparr> sampleDecompositionValue :=
                    addToBin binary32 2 (1, 1, 1) 1
                      (sampleDecompositionValue (initialAccum bounceResult)) \<rparr>)"
    unfolding step
    by (simp add: k f plainConnections_def plainConnection_def specMul_def isZero_def Let_def)
  have six: "sampleDecompositionValue
        ((initialAccum bounceResult)
           \<lparr> sampleDecompositionValue :=
               addToBin binary32 2 (1, 1, 1) 1
                 (sampleDecompositionValue (initialAccum bounceResult)) \<rparr>) 6 = 1"
    by (simp add: addToBin_def initialAccum_def binary32_values)
  have "real_of_int (1 + 2 - 1) = 2" by simp
  with pr k run six show ?thesis by blast
qed

subsection \<open>Direct elliptic connections\<close>

text \<open>The branch for \<open>s = 1\<close> raises no error, whatever it is given.\<close>

lemma directEmitter_no_error:
  "directEmitter wr ePl sPl target s t c \<noteq> Inl e"
  by (simp add: directEmitter_def Let_def)

text \<open>
  The branch for \<open>t = 1\<close> raises the error exactly when the sample is not dropped before
  and the current type is still \<^verbatim>\<open>ETransientEllipse\<close>.
\<close>

lemma directSensor_error_iff:
  "directSensor wr ePl sPl target s t c = Inl e \<longleftrightarrow>
     (e = EError ''Cannot make Direct Ellipsoidal connections''
      \<and> \<not> vsIsDegenerate c
      \<and> \<not> isZero (specMul (importanceWeight c) (sampleDirectResult c))
      \<and> fst (chooseDecomposition wr c (m_decompositionType wr)
               ((if m_decompositionType wr \<noteq> ESteadyState then ePl ! nat s else 0)
                + vsVtDistance c)) = ETransientEllipse)"
  by (cases "m_decompositionType wr")
     (auto simp add: directSensor_def Let_def chooseDecomposition_other split: prod.splits)

text \<open>
  C5. The claim: a direct elliptic connection fails with the fatal error both at \<open>s = 1\<close>
  and at \<open>t = 1\<close>. In transient-ellipse mode without combination, with direct sampling on
  and a connection whose every call succeeds: for \<open>(s, t) = (2, 1)\<close> the error is raised,
  but for \<open>(s, t) = (1, 2)\<close> the elliptic connection is attempted and the iteration goes
  on with the current type still \<^verbatim>\<open>ETransientEllipse\<close> and the two new edge lengths added
  to the path length.
\<close>

theorem direct_ellipse_error_only_at_t1:
  "connectEndpoints exampleConfig ellipseResult [0, 0, 1] [0, 0, 1] 3 2 1 plainConnection
     = Inl (EError ''Cannot make Direct Ellipsoidal connections'')
   \<and> connectEndpoints exampleConfig ellipseResult [0, 0, 1] [0, 0, 1] 3 1 2 plainConnection
     = Inr (Proceed \<lparr> p_type = ETransientEllipse, p_pathLength = 3, p_value = (1, 1, 1),
                       p_sampleDirect = True, p_corrWeight = 1 \<rparr>)"
  by (simp add: connectEndpoints_def directSensor_def directEmitter_def chooseDecomposition_def
        exampleConfig_def ellipseResult_def transientResult_def plainConnection_def
        specMul_def isZero_def Let_def)

subsection \<open>Pool balance\<close>

lemma forPairs_total:
  assumes "\<And>s t a. \<exists>a'. body s t a = Inr a'"
  shows "\<exists>acc'. forPairs body ps acc = Inr acc'"
proof (induction ps arbitrary: acc)
  case Nil
  then show ?case by simp
next
  case (Cons p ps)
  obtain s t where p: "p = (s, t)" by (cases p)
  from assms obtain a' where "body s t acc = Inr a'" by blast
  then show ?case using Cons[of a'] p by simp
qed

lemma connection_total:
  assumes "m_decompositionType wr \<noteq> ETransientEllipse"
  shows "\<exists>acc'. connection fl config wr laser ePl sPl target pos ext s t acc = Inr acc'"
proof (cases "connectEndpoints config wr ePl sPl target s t (ext s t)")
  case (Inl e)
  then show ?thesis using connectEndpoints_no_error[OF assms] by blast
next
  case (Inr ep)
  then show ?thesis by (cases ep) (simp_all add: connection_def)
qed

text \<open>The scratch objects of \<^verbatim>\<open>evaluate\<close>: whenever it returns, the same objects are in flight.\<close>

lemma evaluate_pool:
  assumes "evaluate fl config wr laser eLen sLen nE nS target pos ext pool = Inr (pool', sample, acc)"
  shows "vertexInFlight pool' = vertexInFlight pool \<and> edgeInFlight pool' = edgeInFlight pool"
proof -
  let ?fp = "forPairs
       (connection fl config wr laser (pathlengths (m_decompositionType wr) eLen nE)
          (pathlengths (m_decompositionType wr) sLen nS) target pos ext)
       (connectionPairs config wr (int nE) (int nS)) (initialAccum wr)"
  show ?thesis
  proof (cases ?fp)
    case (Inl e)
    then show ?thesis
      using assms by (simp add: evaluate_def allocEdge_def allocVertex_def Let_def)
  next
    case (Inr a)
    then have "pool' = releaseVertex (vertexNext pool)
        (releaseEdge (edgeNext pool + 1) (releaseEdge (edgeNext pool)
          (pool\<lparr> edgeInFlight := (edgeNext pool + 1) # edgeNext pool # edgeInFlight pool,
                 edgeNext := edgeNext pool + 1 + 1,
                 vertexInFlight := vertexNext pool # vertexInFlight pool,
                 vertexNext := vertexNext pool + 1 \<rparr>)))"
      using assms by (simp add: evaluate_def allocEdge_def allocVertex_def Let_def)
    then show ?thesis by (simp add: releaseEdge_def releaseVertex_def)
  qed
qed

lemma evaluate_total:
  assumes "m_decompositionType wr \<noteq> ETransientEllipse"
  shows "\<exists>r. evaluate fl config wr laser eLen sLen nE nS target pos ext pool = Inr r"
proof -
  obtain acc' where
    "forPairs
       (connection fl config wr laser (pathlengths (m_decompositionType wr) eLen nE)
          (pathlengths (m_decompositionType wr) sLen nS) target pos ext)
       (connectionPairs config wr (int nE) (int nS)) (initialAccum wr) = Inr acc'"
    using forPairs_total[of "connection fl config wr laser
        (pathlengths (m_decompositionType wr) eLen nE)
        (pathlengths (m_decompositionType wr) sLen nS) target pos ext"]
      connection_total[OF assms]
    by blast
  then show ?thesis
    by (simp add: evaluate_def allocEdge_def allocVertex_def Let_def)
qed

lemma fold_releaseVertex_vertices:
  "mset (vertexInFlight (fold releaseVertex xs pool)) = mset (vertexInFlight pool) - mset xs"
  by (induction xs arbitrary: pool) (simp_all add: releaseVertex_def)

lemma fold_releaseVertex_edges:
  "edgeInFlight (fold releaseVertex xs pool) = edgeInFlight pool"
  by (induction xs arbitrary: pool) (simp_all add: releaseVertex_def)

lemma fold_releaseEdge_edges:
  "mset (edgeInFlight (fold releaseEdge xs pool)) = mset (edgeInFlight pool) - mset xs"
  by (induction xs arbitrary: pool) (simp_all add: releaseEdge_def)

lemma fold_releaseEdge_vertices:
  "vertexInFlight (fold releaseEdge xs pool) = vertexInFlight pool"
  by (induction xs arbitrary: pool) (simp_all add: releaseEdge_def)

lemma Path_release_pool:
  "mset (vertexInFlight (Path_release path pool))
     = mset (vertexInFlight pool) - mset (vertices path)"
  "mset (edgeInFlight (Path_release path pool)) = mset (edgeInFlight pool) - mset (edges path)"
  by (simp_all add: Path_release_def fold_releaseVertex_vertices fold_releaseVertex_edges
        fold_releaseEdge_edges fold_releaseEdge_vertices)

lemma Path_initialize_pool:
  assumes "Path_initialize pool = (path, pool')"
  shows "mset (vertexInFlight pool') = mset (vertexInFlight pool) + mset (vertices path)"
    and "mset (edgeInFlight pool') = mset (edgeInFlight pool) + mset (edges path)"
  using assms by (auto simp add: Path_initialize_def allocVertex_def)

lemma Path_grow_pool:
  assumes "Path_grow n path pool = (path', pool')"
  shows "mset (vertexInFlight pool') + mset (vertices path)
           = mset (vertexInFlight pool) + mset (vertices path')
       \<and> mset (edgeInFlight pool') + mset (edges path)
           = mset (edgeInFlight pool) + mset (edges path')"
  using assms
proof (induction n arbitrary: path pool)
  case 0
  then show ?case by simp
next
  case (Suc n)
  let ?e = "edgeNext pool"
  let ?v = "vertexNext pool"
  let ?pool2 = "pool\<lparr> edgeInFlight := ?e # edgeInFlight pool, edgeNext := ?e + 1,
                       vertexInFlight := ?v # vertexInFlight pool, vertexNext := ?v + 1 \<rparr>"
  let ?path2 = "\<lparr> vertices = vertices path @ [?v], edges = edges path @ [?e] \<rparr>"
  have "Path_grow n ?path2 ?pool2 = (path', pool')"
    using Suc.prems by (simp add: allocEdge_def allocVertex_def)
  from Suc.IH[OF this] show ?case by simp
qed

text \<open>
  C6. Whenever one pixel sample of \<^verbatim>\<open>process\<close> returns, the vertices and the edges in
  flight are the ones that were in flight before it; in particular a pool that was
  unused is unused again. This holds for every result of the calls into the scene and
  the sampler, that is, on every path through the loops of \<^verbatim>\<open>evaluate\<close>.
\<close>

theorem pixelSample_pool_balance:
  assumes "pixelSample fl config wr isEmitterLaser emitterEdgeLength sensorEdgeLength emitterSteps
             sensorSteps target initialSamplePos ext pool = Inr (pool', sample, acc)"
  shows "mset (vertexInFlight pool') = mset (vertexInFlight pool)
       \<and> mset (edgeInFlight pool') = mset (edgeInFlight pool)
       \<and> (unused pool \<longrightarrow> unused pool')"
proof -
  obtain e0 pool1 where i1: "Path_initialize pool = (e0, pool1)" by (cases "Path_initialize pool")
  obtain s0 pool2 where i2: "Path_initialize pool1 = (s0, pool2)"
    by (cases "Path_initialize pool1")
  obtain ep pool3 where g1: "Path_grow emitterSteps e0 pool2 = (ep, pool3)"
    by (cases "Path_grow emitterSteps e0 pool2")
  obtain sp pool4 where g2: "Path_grow sensorSteps s0 pool3 = (sp, pool4)"
    by (cases "Path_grow sensorSteps s0 pool3")
  let ?ev = "evaluate fl config wr isEmitterLaser emitterEdgeLength sensorEdgeLength
               (length (vertices ep)) (length (vertices sp)) target initialSamplePos ext pool4"
  have ps: "pixelSample fl config wr isEmitterLaser emitterEdgeLength sensorEdgeLength emitterSteps
             sensorSteps target initialSamplePos ext pool
      = (case ?ev of Inl e \<Rightarrow> Inl e
         | Inr (pool5, sample, acc) \<Rightarrow>
             let pool6 = Path_release ep pool5; pool7 = Path_release sp pool6
             in Inr (pool7, sample, acc))"
    by (simp add: pixelSample_def i1 i2 g1 g2)
  obtain pool5 where
    ev: "?ev = Inr (pool5, sample, acc)"
    and out: "pool' = Path_release sp (Path_release ep pool5)"
  proof (cases ?ev)
    case (Inl e)
    then show ?thesis using assms ps by simp
  next
    case (Inr r)
    obtain p5 sm ac where r: "r = (p5, sm, ac)" by (cases r)
    then show ?thesis using assms ps Inr that[of p5] by (simp add: Let_def)
  qed
  note p5 = evaluate_pool[OF ev]
  note a1 = Path_initialize_pool[OF i1]
  note a2 = Path_initialize_pool[OF i2]
  note b1 = Path_grow_pool[OF g1]
  note b2 = Path_grow_pool[OF g2]
  have v4: "mset (vertexInFlight pool4)
      = mset (vertexInFlight pool) + mset (vertices ep) + mset (vertices sp)"
  proof -
    have "mset (vertexInFlight pool4) + (mset (vertices e0) + mset (vertices s0))
        = (mset (vertexInFlight pool) + mset (vertices ep) + mset (vertices sp))
          + (mset (vertices e0) + mset (vertices s0))"
      using a1(1) a2(1) b1 b2 by (simp add: ac_simps)
    then show ?thesis by (rule add_right_imp_eq)
  qed
  have e4: "mset (edgeInFlight pool4)
      = mset (edgeInFlight pool) + mset (edges ep) + mset (edges sp)"
  proof -
    have "mset (edgeInFlight pool4) + (mset (edges e0) + mset (edges s0))
        = (mset (edgeInFlight pool) + mset (edges ep) + mset (edges sp))
          + (mset (edges e0) + mset (edges s0))"
      using a1(2) a2(2) b1 b2 by (simp add: ac_simps)
    then show ?thesis by (rule add_right_imp_eq)
  qed
  have v: "mset (vertexInFlight pool') = mset (vertexInFlight pool)"
    using v4 p5 by (simp add: out Path_release_pool)
  have e: "mset (edgeInFlight pool') = mset (edgeInFlight pool)"
    using e4 p5 by (simp add: out Path_release_pool)
  have "unused pool \<longrightarrow> unused pool'"
    using v e by (auto simp add: unused_def)
  with v e show ?thesis by blast
qed

theorem pixelSample_pool_balance_witness:
  "\<exists>pool' sample acc.
      pixelSample binary32 exampleConfig bounceResult False unitEdgeLength unitEdgeLength 1 2 3 (0, 0)
        plainConnections emptyPool = Inr (pool', sample, acc)
      \<and> unused emptyPool \<and> unused pool'"
proof -
  have ne: "m_decompositionType bounceResult \<noteq> ETransientEllipse"
    by (simp add: bounceResult_def)
  obtain e0 pool1 where i1: "Path_initialize emptyPool = (e0, pool1)"
    by (cases "Path_initialize emptyPool")
  obtain s0 pool2 where i2: "Path_initialize pool1 = (s0, pool2)"
    by (cases "Path_initialize pool1")
  obtain ep pool3 where g1: "Path_grow 1 e0 pool2 = (ep, pool3)"
    by (cases "Path_grow 1 e0 pool2")
  obtain sp pool4 where g2: "Path_grow 2 s0 pool3 = (sp, pool4)"
    by (cases "Path_grow 2 s0 pool3")
  from evaluate_total[OF ne, of binary32 exampleConfig False unitEdgeLength unitEdgeLength
      "length (vertices ep)" "length (vertices sp)" 3 "(0, 0)" plainConnections pool4]
  obtain res where res:
    "evaluate binary32 exampleConfig bounceResult False unitEdgeLength unitEdgeLength
       (length (vertices ep)) (length (vertices sp)) 3 (0, 0) plainConnections pool4
       = Inr res"
    by blast
  obtain pool5 sample acc where "res = (pool5, sample, acc)" by (cases res)
  with res have
    "evaluate binary32 exampleConfig bounceResult False unitEdgeLength unitEdgeLength
       (length (vertices ep)) (length (vertices sp)) 3 (0, 0) plainConnections pool4
       = Inr (pool5, sample, acc)"
    by simp
  then have r: "pixelSample binary32 exampleConfig bounceResult False unitEdgeLength unitEdgeLength 1 2 3
      (0, 0) plainConnections emptyPool
      = Inr (Path_release sp (Path_release ep pool5), sample, acc)"
    using i1 i2 g1 g2 by (simp add: pixelSample_def Let_def)
  have u: "unused emptyPool" by (simp add: unused_def emptyPool_def)
  from pixelSample_pool_balance[OF r] u
  have "unused (Path_release sp (Path_release ep pool5))" by blast
  with r u show ?thesis by blast
qed

subsection \<open>Film serialization\<close>

lemma length_natBytes: "length (natBytes k n) = k"
  by (induction k arbitrary: n) auto

lemma bytesNat_snoc: "bytesNat (bs @ [b]) = bytesNat bs * 256 + unat b"
  by (simp add: bytesNat_def)

lemma unat_byte_mod: "unat (of_nat (n mod 256) :: byte) = n mod 256"
  by (simp add: unat_of_nat)

lemma bytesNat_natBytes: "n < 256 ^ k \<Longrightarrow> bytesNat (natBytes k n) = n"
proof (induction k arbitrary: n)
  case 0
  then show ?case by (simp add: bytesNat_def)
next
  case (Suc k)
  have "n div 256 < 256 ^ k" using Suc.prems by (simp add: less_mult_imp_div_less)
  then show ?case using Suc.IH[of "n div 256"] by (simp add: bytesNat_snoc unat_byte_mod)
qed

lemma readUInt_writeUInt: "readUInt (writeUInt w @ rest) = Some (w, rest)"
proof -
  have "unat w < 256 ^ 4" using unsigned_less[of w, where 'a = nat] by simp
  then show ?thesis
    by (simp add: readUInt_def writeUInt_def length_natBytes bytesNat_natBytes
          del: natBytes.simps)
qed

lemma readFloat_writeFloat: "readFloat (writeFloat w @ rest) = Some (w, rest)"
  by (simp add: readFloat_def writeFloat_def readUInt_writeUInt)

lemma readSize_writeSize: "readSize (writeSize w @ rest) = Some (w, rest)"
proof -
  have "unat w < 256 ^ 8" using unsigned_less[of w, where 'a = nat] by simp
  then show ?thesis
    by (simp add: readSize_def writeSize_def length_natBytes bytesNat_natBytes
          del: natBytes.simps)
qed

lemma readBool_writeBool: "readBool (writeBool b @ rest) = Some (b, rest)"
  by (simp add: readBool_def writeBool_def)

lemma Vector2i_roundtrip: "Vector2i_unserialize (Vector2i_serialize v @ rest) = Some (v, rest)"
  by (simp add: Vector2i_unserialize_def Vector2i_serialize_def readUInt_writeUInt)

lemmas stream_roundtrips =
  readUInt_writeUInt readFloat_writeFloat readSize_writeSize readBool_writeBool
  Vector2i_roundtrip

text \<open>
  Reading back what \<^verbatim>\<open>serialize\<close> wrote assigns every serialized member its old value and
  leaves the rest of the stream; the members that are not serialized keep whatever the
  new object held.
\<close>

lemma Film_unserialize_serialize:
  assumes "\<forall>x rest. getFilter (serializeFilter x @ rest) = Some (x, rest)"
    and "\<forall>x rest. getSampler (serializeSampler x @ rest) = Some (x, rest)"
  shows "Film_unserialize getFilter getSampler uninitialized
           (Film_serialize serializeFilter serializeSampler film @ rest)
         = Some (uninitialized\<lparr>
             m_size := m_size film, m_cropOffset := m_cropOffset film,
             m_cropSize := m_cropSize film,
             m_highQualityEdges := m_highQualityEdges film,
             film_decompositionType := film_decompositionType film,
             film_combineBDPTAndElliptic := film_combineBDPTAndElliptic film,
             film_decompositionMinBound := film_decompositionMinBound film,
             film_decompositionMaxBound := film_decompositionMaxBound film,
             film_decompositionBinWidth := film_decompositionBinWidth film,
             film_frames := film_frames film, m_subSamples := m_subSamples film,
             film_forceBounces := film_forceBounces film,
             film_sBounces := film_sBounces film, film_tBounces := film_tBounces film,
             m_filter := m_filter film,
             m_pathLengthSampler := m_pathLengthSampler film \<rparr>, rest)"
  using assms
  by (simp add: Film_unserialize_def Film_serialize_def stream_roundtrips)

text \<open>
  C9. Provided the two sub-objects are read back as they were written, the stream
  constructor accepts the bytes \<^verbatim>\<open>serialize\<close> produced, consumes all of them, and
  serializing the film it builds yields the same bytes again, whatever the members that
  are not serialized hold.
\<close>

theorem Film_serialize_roundtrip:
  assumes "\<forall>x rest. getFilter (serializeFilter x @ rest) = Some (x, rest)"
    and "\<forall>x rest. getSampler (serializeSampler x @ rest) = Some (x, rest)"
  shows "\<exists>film'. Film_unserialize getFilter getSampler uninitialized
                     (Film_serialize serializeFilter serializeSampler film) = Some (film', [])
               \<and> Film_serialize serializeFilter serializeSampler film'
                   = Film_serialize serializeFilter serializeSampler film"
proof -
  from Film_unserialize_serialize[OF assms, of uninitialized film "[]"]
  obtain film' where
    f: "Film_unserialize getFilter getSampler uninitialized
          (Film_serialize serializeFilter serializeSampler film) = Some (film', [])"
    and eq: "film' = uninitialized\<lparr>
             m_size := m_size film, m_cropOffset := m_cropOffset film,
             m_cropSize := m_cropSize film,
             m_highQualityEdges := m_highQualityEdges film,
             film_decompositionType := film_decompositionType film,
             film_combineBDPTAndElliptic := film_combineBDPTAndElliptic film,
             film_decompositionMinBound := film_decompositionMinBound film,
             film_decompositionMaxBound := film_decompositionMaxBound film,
             film_decompositionBinWidth := film_decompositionBinWidth film,
             film_frames := film_frames film, m_subSamples := m_subSamples film,
             film_forceBounces := film_forceBounces film,
             film_sBounces := film_sBounces film, film_tBounces := film_tBounces film,
             m_filter := m_filter film,
             m_pathLengthSampler := m_pathLengthSampler film \<rparr>"
    by simp
  have "Film_serialize serializeFilter serializeSampler film'
          = Film_serialize serializeFilter serializeSampler film"
    by (simp add: eq Film_serialize_def)
  with f show ?thesis by blast
qed

theorem Film_serialize_roundtrip_witness:
  "\<exists>film'. Film_unserialize byteGetInstance byteGetInstance blankFilm
               (Film_serialize byteSerialize byteSerialize exampleFilm) = Some (film', [])
          \<and> Film_serialize byteSerialize byteSerialize film'
              = Film_serialize byteSerialize byteSerialize exampleFilm"
proof -
  have rt: "\<forall>x rest. byteGetInstance (byteSerialize x @ rest) = Some (x, rest)"
    by (simp add: byteGetInstance_def byteSerialize_def)
  show ?thesis by (rule Film_serialize_roundtrip[OF rt rt])
qed

end
